theory Spec2Isabelle
  imports Main "HOL-Library.Word"
begin

section \<open>Primitive types\<close>

text \<open>
  Go's \<open>int64\<close> is a 64-bit word read in two's complement: \<open>+\<close>, \<open>-\<close> and \<open>*\<close> wrap,
  comparisons are the signed ones (\<open><s\<close>, \<open>\<le>s\<close>). A transaction hash is a
  \<open>[32]byte\<close>, that is a 256-bit word whose zero value is \<open>0\<close>. A signature is a byte
  slice. Addresses (escrow accounts, signers) and assets are strings; a nil
  \<open>*keypair.FromAddress\<close> in an agreement is \<open>None\<close>. An error is its message.
\<close>

type_synonym int64 = "64 word"
type_synonym TransactionHash = "256 word"
type_synonym bytes = "8 word list"
type_synonym error = string

record DecoratedSignature =
  Hint :: bytes
  Signature :: bytes

section \<open>Signature lists (state.go, appendNewSignatures)\<close>

text \<open>
  The first loop of \<open>appendNewSignatures\<close> fills the map \<open>m\<close> with the signature bytes of
  the old list; the second loop appends every new signature whose bytes are not a key of
  \<open>m\<close>. The map is not written in the second loop.
\<close>

definition sigMap :: "DecoratedSignature list \<Rightarrow> (bytes \<rightharpoonup> bool)" where
  "sigMap oldSignatures = foldl (\<lambda>m os. m(Signature os \<mapsto> True)) Map.empty oldSignatures"

definition appendNewSignatures ::
  "DecoratedSignature list \<Rightarrow> DecoratedSignature list \<Rightarrow> DecoratedSignature list" where
  "appendNewSignatures oldSignatures newSignatures =
     foldl (\<lambda>acc ns. if sigMap oldSignatures (Signature ns) = None then acc @ [ns] else acc)
       oldSignatures newSignatures"

text \<open>
  The elements of \<open>res\<close> past the first \<open>length old\<close> ones have pairwise different
  signature bytes, none of which occurs in \<open>old\<close>: every pair of equal signature bytes
  in \<open>res\<close> lies within \<open>old\<close>.
\<close>

definition noNewDuplicate :: "DecoratedSignature list \<Rightarrow> DecoratedSignature list \<Rightarrow> bool" where
  "noNewDuplicate old res =
     (distinct (map Signature (drop (length old) res)) \<and>
      list_all (\<lambda>s. s \<notin> set (map Signature old)) (map Signature (drop (length old) res)))"

section \<open>Amounts of a balance (state.go)\<close>

definition amountToInitiator :: "int64 \<Rightarrow> int64" where
  "amountToInitiator balance = (if balance <s 0 then balance * (- 1) else 0)"

definition amountToResponder :: "int64 \<Rightarrow> int64" where
  "amountToResponder balance = (if 0 <s balance then balance else 0)"

section \<open>The surrounding libraries\<close>

text \<open>
  A transaction as \<open>txbuild.Close\<close> assembles it: the fields of
  \<open>txnbuild.TransactionParams\<close> that the builder sets, and the signatures attached later.
\<close>

datatype Operation =
    SetOptions (soSourceAccount: string) (soMasterWeight: nat) (soLowThreshold: nat)
      (soMediumThreshold: nat) (soHighThreshold: nat) (soSignerAddress: string) (soSignerWeight: nat)
  | Payment (paySourceAccount: string) (payDestination: string) (payAsset: string) (payAmount: int64)
  | BumpSequence (bumpTo: int64)

record Transaction =
  txSourceAccount :: string
  txSequence :: int64
  txBaseFee :: int64
  txTimeout :: int64
  txMinSequenceAge :: int64
  txMinSequenceLedgerGap :: int64
  txExtraSigners :: "TransactionHash list"
  txOperations :: "Operation list"
  txSignatures :: "DecoratedSignature list"

record DeclarationParams =
  dpInitiatorEscrow :: string
  dpStartSequence :: int64
  dpIterationNumber :: int64
  dpIterationNumberExecuted :: int64
  dpConfirmingSigner :: "string option"
  dpCloseTxHash :: TransactionHash

text \<open>
  The part of \<open>xdr.TransactionMeta\<close> that ingestion reads. A signer carries the result
  of \<open>Key.GetAddress()\<close>; \<open>Thresholds\<close> is the \<open>[4]byte\<close>; a trustline entry carries
  its asset as \<open>Asset.StringCanonical()\<close> returns it; a change that is not an update
  (\<open>GetUpdated\<close> not ok) is \<open>NotUpdated\<close>; \<open>V2Operations\<close> is \<open>None\<close> when the
  \<open>V2\<close> pointer is nil.
\<close>

record Signer =
  signerAddress :: "error + string"
  Weight :: "32 word"

record AccountEntry =
  aeAccountId :: string
  aeBalance :: int64
  aeSeqNum :: int64
  aeThresholds :: bytes
  aeSigners :: "Signer list"

record TrustLineEntry =
  tlAccountId :: string
  tlAsset :: string
  tlBalance :: int64
  tlLimit :: int64
  tlFlags :: "32 word"

datatype LedgerEntryData =
    AccountData AccountEntry
  | TrustLineData TrustLineEntry
  | OtherData

datatype LedgerEntryChange = Updated LedgerEntryData | NotUpdated

record TransactionMeta =
  V2Operations :: "LedgerEntryChange list list option"



text \<open>
  What the state machine calls and the sources at hand do not hold, taken as
  parameters: the stellar SDK (\<open>txnbuild.NewTransaction\<close>'s validation, transaction
  hashing, key pairs, \<open>time.Duration.Seconds\<close>, \<open>strconv.FormatInt\<close>, the XDR
  decoder), the \<open>IsNative\<close> method of the channel's asset type,
  and \<open>txbuild.Declaration\<close>.
\<close>

record Ext =
  NewTransactionError :: "Transaction \<Rightarrow> error option"
  Declaration :: "DeclarationParams \<Rightarrow> error + Transaction"
  TxHash :: "string \<Rightarrow> Transaction \<Rightarrow> error + TransactionHash"
  DurationSeconds :: "int64 \<Rightarrow> int64"
  MinBaseFee :: int64
  KpSign :: "string \<Rightarrow> TransactionHash \<Rightarrow> error + bytes"
  KpVerify :: "string \<Rightarrow> TransactionHash \<Rightarrow> bytes \<Rightarrow> error option"
  KpHint :: "string \<Rightarrow> bytes"
  PayloadHint :: "bytes \<Rightarrow> TransactionHash \<Rightarrow> bytes"
  AssetIsNative :: "string \<Rightarrow> bool"
  FormatInt :: "int64 \<Rightarrow> string"
  UnmarshalMeta :: "string \<Rightarrow> error + TransactionMeta"

section \<open>The close transaction (txbuild.Close)\<close>

record CloseParams =
  cpObservationPeriodTime :: int64
  cpObservationPeriodLedgerGap :: int64
  cpInitiatorSigner :: string
  cpResponderSigner :: string
  cpInitiatorEscrow :: string
  cpResponderEscrow :: string
  cpStartSequence :: int64
  cpIterationNumber :: int64
  cpAmountToInitiator :: int64
  cpAmountToResponder :: int64
  cpAsset :: string

text \<open>
  Modelled from the spec: \<open>startSequenceOfIteration\<close> is not in the sources. The spec
  gives the declaration transaction the sequence
  \<open>starting_sequence + 2 * iteration_number - 1\<close> and the close transaction the next one.
\<close>

definition startSequenceOfIteration :: "int64 \<Rightarrow> int64 \<Rightarrow> int64" where
  "startSequenceOfIteration startSequence iterationNumber =
     startSequence + 2 * iterationNumber - 1"

text \<open>
  \<open>Close\<close> as the sources have it: two \<open>SetOptions\<close>, then a payment to the initiator escrow if
  \<open>AmountToInitiator\<close> is not zero, then a payment to the responder escrow if
  \<open>AmountToResponder\<close> is not zero. This revision pays in the native asset whatever
  \<open>cpAsset\<close> says.
\<close>

definition closeOperations :: "CloseParams \<Rightarrow> Operation list" where
  "closeOperations p =
     [SetOptions (cpInitiatorEscrow p) 0 1 1 1 (cpResponderSigner p) 0,
      SetOptions (cpResponderEscrow p) 0 1 1 1 (cpInitiatorSigner p) 0]
     @ (if cpAmountToInitiator p \<noteq> 0
        then [Payment (cpResponderEscrow p) (cpInitiatorEscrow p) ''native'' (cpAmountToInitiator p)]
        else [])
     @ (if cpAmountToResponder p \<noteq> 0
        then [Payment (cpInitiatorEscrow p) (cpResponderEscrow p) ''native'' (cpAmountToResponder p)]
        else [])"

definition Close :: "Ext \<Rightarrow> CloseParams \<Rightarrow> error + Transaction" where
  "Close ext p =
     (let tp = \<lparr> txSourceAccount = cpInitiatorEscrow p,
                 txSequence = startSequenceOfIteration (cpStartSequence p) (cpIterationNumber p) + 1,
                 txBaseFee = MinBaseFee ext,
                 txTimeout = 300,
                 txMinSequenceAge = DurationSeconds ext (cpObservationPeriodTime p),
                 txMinSequenceLedgerGap = cpObservationPeriodLedgerGap p,
                 txExtraSigners = [],
                 txOperations = closeOperations p,
                 txSignatures = [] \<rparr>
      in case NewTransactionError ext tp of Some err \<Rightarrow> Inl err | None \<Rightarrow> Inr tp)"

section \<open>Agreements and the channel (state.go, close.go)\<close>

text \<open>
  \<open>EscrowAccount\<close> of \<open>state.go\<close> in its two revisions: the struct of the second part
  holds the address and the sequence number (\<open>EscrowAccount2\<close>), the struct of the first
  part adds the cached balance.
\<close>

record EscrowAccount2 =
  Address :: string
  SequenceNumber :: int64

record EscrowAccount = EscrowAccount2 +
  Balance :: int64

record OpenAgreementDetails =
  oadObservationPeriodTime :: int64
  oadObservationPeriodLedgerGap :: int64
  oadAsset :: string
  oadExpiresAt :: int64
  oadStartingSequence :: int64
  oadProposingSigner :: "string option"
  oadConfirmingSigner :: "string option"

record OpenAgreement =
  oaDetails :: OpenAgreementDetails

record CloseAgreementDetails =
  ObservationPeriodTime :: int64
  ObservationPeriodLedgerGap :: int64
  IterationNumber :: int64
  Balance_d :: int64
  ProposingSigner :: "string option"
  ConfirmingSigner :: "string option"

record CloseAgreementTransactionHashes =
  hashDeclaration :: TransactionHash
  hashClose :: TransactionHash

record CloseAgreementSignatures =
  sigDeclaration :: bytes
  sigClose :: bytes

record CloseAgreement =
  Details :: CloseAgreementDetails
  TransactionHashes :: CloseAgreementTransactionHashes
  ProposerSignatures :: CloseAgreementSignatures
  ConfirmerSignatures :: CloseAgreementSignatures

text \<open>
  \<open>state.go\<close> holds the \<open>Channel\<close> struct in two revisions, which share the fields
  of \<open>ChannelCommon\<close> and the four methods below, each with the \<open>EscrowAccount\<close> of its
  revision (\<open>'e\<close>). The escrow accounts are held by value: nothing proved here depends
  on two channels sharing one account.
\<close>

record 'e ChannelCommon =
  networkPassphrase :: string
  startingSequence :: int64
  initiator :: bool
  localEscrowAccount :: 'e
  remoteEscrowAccount :: 'e
  localSigner :: string
  remoteSigner :: string

text \<open>
  The channel of \<open>close.go\<close> and of the ingestion code: the first \<open>Channel\<close> struct of
  \<open>state.go\<close>, together with the two flags that the methods of that revision read and
  write and whose declaration is not in the sources (\<open>openExecutedAndValidated\<close> in
  \<open>close.go\<close>, \<open>formationTxSuccess\<close> in \<open>ingestFormationTx\<close>).
\<close>

record Channel = "EscrowAccount ChannelCommon" +
  maxOpenExpiry :: int64
  openAgreement :: OpenAgreement
  latestAuthorizedCloseAgreement :: CloseAgreement
  latestUnauthorizedCloseAgreement :: CloseAgreement
  openExecutedAndValidated :: bool
  formationTxSuccess :: bool

definition initiatorEscrowAccount :: "('e, 'a) ChannelCommon_scheme \<Rightarrow> 'e" where
  "initiatorEscrowAccount c = (if initiator c then localEscrowAccount c else remoteEscrowAccount c)"

definition responderEscrowAccount :: "('e, 'a) ChannelCommon_scheme \<Rightarrow> 'e" where
  "responderEscrowAccount c = (if initiator c then remoteEscrowAccount c else localEscrowAccount c)"

definition initiatorSigner :: "('e, 'a) ChannelCommon_scheme \<Rightarrow> string" where
  "initiatorSigner c = (if initiator c then localSigner c else remoteSigner c)"

definition responderSigner :: "('e, 'a) ChannelCommon_scheme \<Rightarrow> string" where
  "responderSigner c = (if initiator c then remoteSigner c else localSigner c)"

definition closeTxs ::
  "Ext \<Rightarrow> Channel \<Rightarrow> OpenAgreementDetails \<Rightarrow> CloseAgreementDetails \<Rightarrow>
     error + (TransactionHash \<times> Transaction \<times> TransactionHash \<times> Transaction)" where
  "closeTxs ext c oad d =
     (case Close ext \<lparr> cpObservationPeriodTime = ObservationPeriodTime d,
                       cpObservationPeriodLedgerGap = ObservationPeriodLedgerGap d,
                       cpInitiatorSigner = initiatorSigner c,
                       cpResponderSigner = responderSigner c,
                       cpInitiatorEscrow = Address (initiatorEscrowAccount c),
                       cpResponderEscrow = Address (responderEscrowAccount c),
                       cpStartSequence = oadStartingSequence oad,
                       cpIterationNumber = IterationNumber d,
                       cpAmountToInitiator = amountToInitiator (Balance_d d),
                       cpAmountToResponder = amountToResponder (Balance_d d),
                       cpAsset = oadAsset oad \<rparr> of
        Inl err \<Rightarrow> Inl err
      | Inr txClose \<Rightarrow>
     (case TxHash ext (networkPassphrase c) txClose of
        Inl err \<Rightarrow> Inl err
      | Inr txCloseHash \<Rightarrow>
     (case Declaration ext \<lparr> dpInitiatorEscrow = Address (initiatorEscrowAccount c),
                             dpStartSequence = oadStartingSequence oad,
                             dpIterationNumber = IterationNumber d,
                             dpIterationNumberExecuted = 0,
                             dpConfirmingSigner = ConfirmingSigner d,
                             dpCloseTxHash = txCloseHash \<rparr> of
        Inl err \<Rightarrow> Inl err
      | Inr txDecl \<Rightarrow>
     (case TxHash ext (networkPassphrase c) txDecl of
        Inl err \<Rightarrow> Inl err
      | Inr txDeclHash \<Rightarrow> Inr (txDeclHash, txDecl, txCloseHash, txClose)))))"

text \<open>The zero value \<open>CloseAgreement{}\<close>, which \<open>close.go\<close> returns with every error and
  stores to clear the unauthorized agreement.\<close>

definition zeroCloseAgreementSignatures :: CloseAgreementSignatures where
  "zeroCloseAgreementSignatures = \<lparr> sigDeclaration = [], sigClose = [] \<rparr>"

definition zeroCloseAgreement :: CloseAgreement where
  "zeroCloseAgreement =
     \<lparr> Details = \<lparr> ObservationPeriodTime = 0, ObservationPeriodLedgerGap = 0,
                   IterationNumber = 0, Balance_d = 0,
                   ProposingSigner = None, ConfirmingSigner = None \<rparr>,
       TransactionHashes = \<lparr> hashDeclaration = 0, hashClose = 0 \<rparr>,
       ProposerSignatures = zeroCloseAgreementSignatures,
       ConfirmerSignatures = zeroCloseAgreementSignatures \<rparr>"

text \<open>
  Modelled from the spec: \<open>CloseAgreement.isEmpty\<close> of this revision is not in the
  sources. The spec calls an agreement empty until it is set and the unauthorized one
  cleared on promotion; \<open>ConfirmClose\<close> clears by storing \<open>CloseAgreement{}\<close>, so empty
  is equality with the zero value.
\<close>

definition isEmpty :: "CloseAgreement \<Rightarrow> bool" where
  "isEmpty ca = (ca = zeroCloseAgreement)"

text \<open>
  Modelled from the spec: \<open>CloseAgreement.SignaturesFor\<close> is not in the sources. Each
  agreement carries \<open>proposer_signatures\<close> and \<open>confirmer_signatures\<close>; the signatures
  for a signer are the proposer's if it is the proposing signer, the confirmer's if it is
  the confirming signer, and nil (\<open>None\<close>) for anyone else, which is what the callers in
  \<open>ConfirmClose\<close> test for.
\<close>

definition SignaturesFor :: "CloseAgreement \<Rightarrow> string \<Rightarrow> CloseAgreementSignatures option" where
  "SignaturesFor ca signer =
     (if ProposingSigner (Details ca) = Some signer then Some (ProposerSignatures ca)
      else if ConfirmingSigner (Details ca) = Some signer then Some (ConfirmerSignatures ca)
      else None)"

text \<open>\<open>signTx\<close> and \<open>verifySigned\<close> of \<open>state.go\<close>: hash the transaction under the network
  passphrase, then sign the hash, or verify the signature over it.\<close>

definition signTx :: "Ext \<Rightarrow> Transaction \<Rightarrow> string \<Rightarrow> string \<Rightarrow> error + bytes" where
  "signTx ext tx passphrase kp =
     (case TxHash ext passphrase tx of
        Inl err \<Rightarrow> Inl (''failed to hash transaction: '' @ err)
      | Inr h \<Rightarrow>
          (case KpSign ext kp h of
             Inl err \<Rightarrow> Inl (''failed to sign transaction hash: '' @ err)
           | Inr sig \<Rightarrow> Inr sig))"

definition verifySigned :: "Ext \<Rightarrow> Transaction \<Rightarrow> string \<Rightarrow> string \<Rightarrow> bytes \<Rightarrow> error option" where
  "verifySigned ext tx passphrase signer sig =
     (case TxHash ext passphrase tx of
        Inl err \<Rightarrow> Some err
      | Inr h \<Rightarrow> KpVerify ext signer h sig)"

text \<open>
  Modelled from the spec: \<open>signCloseAgreementTxs\<close> and \<open>CloseAgreementSignatures.Verify\<close>
  are not in the sources. A \<open>CloseAgreementSignatures\<close> is two detached signatures, one
  over the declaration and one over the close transaction; signing produces both with
  \<open>signTx\<close>, and the pair verifies when both do under \<open>verifySigned\<close>.
\<close>

definition signCloseAgreementTxs ::
  "Ext \<Rightarrow> Transaction \<Rightarrow> Transaction \<Rightarrow> string \<Rightarrow> string \<Rightarrow> error + CloseAgreementSignatures" where
  "signCloseAgreementTxs ext txDecl txClose passphrase kp =
     (case signTx ext txDecl passphrase kp of
        Inl err \<Rightarrow> Inl err
      | Inr sd \<Rightarrow>
          (case signTx ext txClose passphrase kp of
             Inl err \<Rightarrow> Inl err
           | Inr sc \<Rightarrow> Inr \<lparr> sigDeclaration = sd, sigClose = sc \<rparr>))"

definition VerifySigs ::
  "Ext \<Rightarrow> CloseAgreementSignatures \<Rightarrow> Transaction \<Rightarrow> Transaction \<Rightarrow> string \<Rightarrow> string \<Rightarrow> error option" where
  "VerifySigs ext sigs txDecl txClose passphrase signer =
     (case verifySigned ext txDecl passphrase signer (sigDeclaration sigs) of
        Some err \<Rightarrow> Some err
      | None \<Rightarrow>
          (case verifySigned ext txClose passphrase signer (sigClose sigs) of
             Some err \<Rightarrow> Some err
           | None \<Rightarrow> None))"

section \<open>Coordinated close (close.go)\<close>

text \<open>
  Every operation takes the channel and returns the channel with its result: the channel
  returned with an error is the one the method leaves behind on that path. A panic
  (\<open>Hint()\<close> or \<open>Address()\<close> on a nil signer) is the error \<open>panic: ...\<close>.
\<close>

definition AddSignatureDecorated :: "Transaction \<Rightarrow> DecoratedSignature \<Rightarrow> Transaction" where
  "AddSignatureDecorated tx s = tx\<lparr> txSignatures := txSignatures tx @ [s] \<rparr>"

text \<open>
  \<open>CloseTxs\<close>. The two comparisons of the rebuilt hashes with
  \<open>ca.TransactionHashes\<close> have empty bodies in the source (\<open>// TODO\<close>), so neither
  outcome changes what follows.
\<close>

definition CloseTxs :: "Ext \<Rightarrow> Channel \<Rightarrow> error + (Transaction \<times> Transaction)" where
  "CloseTxs ext c =
     (let ca = latestAuthorizedCloseAgreement c in
      case closeTxs ext c (oaDetails (openAgreement c)) (Details ca) of
        Inl err \<Rightarrow> Inl (''building declaration and close txs for latest close agreement: '' @ err)
      | Inr (declTxHash, declTx, closeTxHash, closeTx) \<Rightarrow>
          (case (ProposingSigner (Details ca), ConfirmingSigner (Details ca)) of
             (Some proposer, Some confirmer) \<Rightarrow>
               (let declTx1 = AddSignatureDecorated declTx
                      \<lparr> Hint = KpHint ext proposer,
                        Signature = sigDeclaration (ProposerSignatures ca) \<rparr>;
                    declTx2 = AddSignatureDecorated declTx1
                      \<lparr> Hint = KpHint ext confirmer,
                        Signature = sigDeclaration (ConfirmerSignatures ca) \<rparr>;
                    declTx3 = AddSignatureDecorated declTx2
                      \<lparr> Hint = PayloadHint ext (KpHint ext confirmer) closeTxHash,
                        Signature = sigClose (ConfirmerSignatures ca) \<rparr>;
                    closeTx1 = AddSignatureDecorated closeTx
                      \<lparr> Hint = KpHint ext proposer,
                        Signature = sigClose (ProposerSignatures ca) \<rparr>;
                    closeTx2 = AddSignatureDecorated closeTx1
                      \<lparr> Hint = KpHint ext confirmer,
                        Signature = sigClose (ConfirmerSignatures ca) \<rparr>
                in Inr (declTx3, closeTx2))
           | _ \<Rightarrow> Inl ''panic: nil pointer dereference''))"

definition ProposeClose :: "Ext \<Rightarrow> Channel \<Rightarrow> Channel \<times> (error + CloseAgreement)" where
  "ProposeClose ext c =
     (if \<not> isEmpty (latestUnauthorizedCloseAgreement c)
      then (c, Inl ''cannot propose coordinated close while an unfinished payment exists'')
      else if isEmpty (latestAuthorizedCloseAgreement c) \<or> \<not> openExecutedAndValidated c
      then (c, Inl ''cannot propose a coordinated close before channel is opened'')
      else
        (let d = (Details (latestAuthorizedCloseAgreement c))
                   \<lparr> ObservationPeriodTime := 0,
                     ObservationPeriodLedgerGap := 0,
                     ProposingSigner := Some (localSigner c),
                     ConfirmingSigner := Some (remoteSigner c) \<rparr>
         in case closeTxs ext c (oaDetails (openAgreement c)) d of
              Inl err \<Rightarrow> (c, Inl (''making declaration and close transactions: '' @ err))
            | Inr (txDeclHash, txDecl, txCloseHash, txClose) \<Rightarrow>
                (case signCloseAgreementTxs ext txDecl txClose (networkPassphrase c) (localSigner c) of
                   Inl err \<Rightarrow> (c, Inl (''signing open agreement with local: '' @ err))
                 | Inr sigs \<Rightarrow>
                     (let ca = \<lparr> Details = d,
                                 TransactionHashes =
                                   \<lparr> hashDeclaration = txDeclHash, hashClose = txCloseHash \<rparr>,
                                 ProposerSignatures = sigs,
                                 ConfirmerSignatures = zeroCloseAgreementSignatures \<rparr>
                      in (c\<lparr> latestUnauthorizedCloseAgreement := ca \<rparr>, Inr ca)))))"

definition validateClose :: "Channel \<Rightarrow> CloseAgreement \<Rightarrow> error option" where
  "validateClose c ca =
     (if isEmpty (latestAuthorizedCloseAgreement c) \<or> \<not> openExecutedAndValidated c
      then Some ''cannot confirm a coordinated close before channel is opened''
      else if IterationNumber (Details ca)
                \<noteq> IterationNumber (Details (latestAuthorizedCloseAgreement c))
      then Some ''close agreement iteration number does not match saved latest authorized close agreement''
      else if Balance_d (Details ca) \<noteq> Balance_d (Details (latestAuthorizedCloseAgreement c))
      then Some ''close agreement balance does not match saved latest authorized close agreement''
      else if ObservationPeriodTime (Details ca) \<noteq> 0
      then Some ''close agreement observation period time is not zero''
      else if ObservationPeriodLedgerGap (Details ca) \<noteq> 0
      then Some ''close agreement observation period ledger gap is not zero''
      else if ConfirmingSigner (Details ca) \<noteq> Some (localSigner c)
              \<and> ConfirmingSigner (Details ca) \<noteq> Some (remoteSigner c)
      then (case ConfirmingSigner (Details ca) of
              None \<Rightarrow> Some ''panic: nil pointer dereference''
            | Some address \<Rightarrow>
                Some (''close agreement confirmer does not match a local or remote signer, got: ''
                      @ address))
      else None)"

text \<open>The last two statements of \<open>ConfirmClose\<close>: store the agreement as authorized and
  clear the unauthorized one.\<close>

definition promoteClose :: "Channel \<Rightarrow> CloseAgreement \<Rightarrow> Channel \<times> (error + CloseAgreement)" where
  "promoteClose c ca =
     (c\<lparr> latestAuthorizedCloseAgreement := ca,
         latestUnauthorizedCloseAgreement := zeroCloseAgreement \<rparr>, Inr ca)"

text \<open>
  \<open>ConfirmClose\<close>. As in \<open>CloseTxs\<close>, the two hash comparisons have empty bodies in the
  source and do not appear.
\<close>

definition ConfirmClose :: "Ext \<Rightarrow> Channel \<Rightarrow> CloseAgreement \<Rightarrow> Channel \<times> (error + CloseAgreement)" where
  "ConfirmClose ext c ca =
     (case validateClose c ca of
        Some err \<Rightarrow> (c, Inl (''validating close agreement: '' @ err))
      | None \<Rightarrow>
     (case closeTxs ext c (oaDetails (openAgreement c)) (Details ca) of
        Inl err \<Rightarrow> (c, Inl (''making close transactions: '' @ err))
      | Inr (txDeclHash, txDecl, txCloseHash, txClose) \<Rightarrow>
     (case SignaturesFor ca (remoteSigner c) of
        None \<Rightarrow> (c, Inl ''remote is not a signer'')
      | Some remoteSigs \<Rightarrow>
     (case VerifySigs ext remoteSigs txDecl txClose (networkPassphrase c) (remoteSigner c) of
        Some err \<Rightarrow> (c, Inl (''not signed by remote: '' @ err))
      | None \<Rightarrow>
     (case SignaturesFor ca (localSigner c) of
        None \<Rightarrow> (c, Inl ''local is not a signer'')
      | Some localSigs \<Rightarrow>
     (case VerifySigs ext localSigs txDecl txClose (networkPassphrase c) (localSigner c) of
        None \<Rightarrow> promoteClose c ca
      | Some err \<Rightarrow>
          (if ConfirmingSigner (Details ca) \<noteq> Some (localSigner c)
           then (c, Inl (''not signed by local: '' @ err))
           else
             (case signCloseAgreementTxs ext txDecl txClose (networkPassphrase c) (localSigner c) of
                Inl err' \<Rightarrow> (c, Inl (''local signing: '' @ err'))
              | Inr sigs \<Rightarrow> promoteClose c (ca\<lparr> ConfirmerSignatures := sigs \<rparr>)))))))))"

text \<open>The payments of a transaction, in order.\<close>

fun isPayment :: "Operation \<Rightarrow> bool" where
  "isPayment (Payment _ _ _ _) = True"
| "isPayment _ = False"

definition payments :: "Transaction \<Rightarrow> Operation list" where
  "payments tx = filter isPayment (txOperations tx)"

definition closePayments ::
  "Ext \<Rightarrow> Channel \<Rightarrow> OpenAgreementDetails \<Rightarrow> CloseAgreementDetails \<Rightarrow> error + Operation list" where
  "closePayments ext c oad d =
     (case closeTxs ext c oad d of
        Inl err \<Rightarrow> Inl err
      | Inr (txDeclHash, txDecl, txCloseHash, txClose) \<Rightarrow> Inr (payments txClose))"

section \<open>Payments on the channel of close.go (spec, section 4.3)\<close>

text \<open>
  The methods of the first part of \<open>state.go\<close> that the payment operations of its
  revision use. \<open>NextIterationNumber\<close> and \<open>Balance\<close> carry the suffix 1 here: the second
  part of \<open>state.go\<close> has methods of the same names on its own channel.
\<close>

definition NextIterationNumber1 :: "Channel \<Rightarrow> int64" where
  "NextIterationNumber1 c =
     (if \<not> isEmpty (latestUnauthorizedCloseAgreement c)
      then IterationNumber (Details (latestUnauthorizedCloseAgreement c))
      else IterationNumber (Details (latestAuthorizedCloseAgreement c)) + 1)"

definition Balance_c1 :: "Channel \<Rightarrow> int64" where
  "Balance_c1 c = Balance_d (Details (latestAuthorizedCloseAgreement c))"

definition UpdateLocalEscrowAccountBalance :: "Channel \<Rightarrow> int64 \<Rightarrow> Channel" where
  "UpdateLocalEscrowAccountBalance c balance =
     c\<lparr> localEscrowAccount := (localEscrowAccount c)\<lparr> Balance := balance \<rparr> \<rparr>"

definition UpdateRemoteEscrowAccountBalance :: "Channel \<Rightarrow> int64 \<Rightarrow> Channel" where
  "UpdateRemoteEscrowAccountBalance c balance =
     c\<lparr> remoteEscrowAccount := (remoteEscrowAccount c)\<lparr> Balance := balance \<rparr> \<rparr>"

definition amountToLocal :: "Channel \<Rightarrow> int64 \<Rightarrow> int64" where
  "amountToLocal c balance =
     (if initiator c then amountToInitiator balance else amountToResponder balance)"

definition amountToRemote :: "Channel \<Rightarrow> int64 \<Rightarrow> int64" where
  "amountToRemote c balance =
     (if initiator c then amountToResponder balance else amountToInitiator balance)"


text \<open>
  Modelled from the spec: the sentinel \<open>ErrUnderfunded\<close> is not declared in the sources.
  The spec lists it among the error sentinels exposed to callers; its text is the one
  the tests of \<open>update.go\<close> expect behind \<open>amount over commits: \<close> and
  \<open>close agreement over commits: \<close>.
\<close>

definition ErrUnderfunded :: error where
  "ErrUnderfunded = ''account is underfunded to make payment''"

text \<open>
  Modelled from the spec: the lifecycle gates \<open>coordinated_close_proposed\<close> and
  \<open>coordinated_close_authorized\<close> are not in the sources. The spec derives them from
  the presence of zero-observation-period agreements: a coordinated close is proposed
  when the unauthorized agreement is one, and authorized when the latest authorized
  agreement is one.
\<close>

definition coordinatedCloseProposed :: "Channel \<Rightarrow> bool" where
  "coordinatedCloseProposed c =
     (\<not> isEmpty (latestUnauthorizedCloseAgreement c)
      \<and> ObservationPeriodTime (Details (latestUnauthorizedCloseAgreement c)) = 0
      \<and> ObservationPeriodLedgerGap (Details (latestUnauthorizedCloseAgreement c)) = 0)"

definition coordinatedCloseAuthorized :: "Channel \<Rightarrow> bool" where
  "coordinatedCloseAuthorized c =
     (\<not> isEmpty (latestAuthorizedCloseAgreement c)
      \<and> ObservationPeriodTime (Details (latestAuthorizedCloseAgreement c)) = 0
      \<and> ObservationPeriodLedgerGap (Details (latestAuthorizedCloseAgreement c)) = 0)"

text \<open>
  Modelled from the spec: the \<open>ProposePayment\<close> that takes an \<open>int64\<close>, which the tests
  of \<open>update.go\<close> and the agent call on the channel of the first part of \<open>state.go\<close>, is
  not in the sources; \<open>update.go\<close> holds an earlier revision of it, on another channel.
  It is modelled from the six steps of section 4.3 of the spec, under the name
  \<open>ProposePayment1\<close>, in four definitions.

  \<open>proposeGate\<close> is step 1: the channel must be executed, no coordinated close proposed
  (or authorized), no unauthorized payment outstanding. A channel is not open yet under
  the condition that \<open>ProposeClose\<close> tests in \<open>close.go\<close>. The texts of the errors are
  the ones the tests expect.
\<close>

definition proposeGate :: "Channel \<Rightarrow> error option" where
  "proposeGate c =
     (if isEmpty (latestAuthorizedCloseAgreement c) \<or> \<not> openExecutedAndValidated c
      then Some ''cannot propose a payment before channel is opened''
      else if coordinatedCloseProposed c
      then Some ''cannot propose payment after proposing a coordinated close''
      else if coordinatedCloseAuthorized c
      then Some ''cannot propose payment after an accepted coordinated close''
      else if \<not> isEmpty (latestUnauthorizedCloseAgreement c)
      then Some ''cannot start a new payment while an unfinished one exists''
      else None)"

text \<open>
  Modelled from the spec: step 3 of \<open>ProposePayment\<close>, which is not in the sources,
  \<open>new_balance = balance + (initiator ? +amount : -amount)\<close>.
\<close>

definition proposedBalance :: "Channel \<Rightarrow> int64 \<Rightarrow> int64" where
  "proposedBalance c amount =
     (if initiator c then Balance_c1 c + amount else Balance_c1 c - amount)"

text \<open>
  Modelled from the spec: the condition of step 4 of \<open>ProposePayment\<close>, which is not in
  the sources. \<open>owed_by_local\<close> is the new balance's amount if its sign makes the local
  participant the debtor, else 0, which is \<open>amountToRemote\<close> of \<open>state.go\<close>; the
  proposal is underfunded when \<open>owed_by_local > local_escrow.balance\<close>.
\<close>

definition underfundedProposal :: "Channel \<Rightarrow> int64 \<Rightarrow> bool" where
  "underfundedProposal c amount =
     (Balance (localEscrowAccount c) <s amountToRemote c (proposedBalance c amount))"

text \<open>
  Modelled from the spec: \<open>ProposePayment\<close> itself, which is not in the sources. Step 1
  is the gate; step 2 asks for \<open>amount > 0\<close> (the amount is an \<open>int64\<close> in the channel's
  asset, so that its asset is the open agreement's); steps 3 and 4 compute the new
  balance and fail with \<open>ErrUnderfunded\<close>; step 5 builds the two transactions at the
  iteration number after the latest authorized one, signs both with the local key and
  stores the agreement as the unauthorized one; step 6 returns it with the proposer's
  signatures and the transaction hashes. The agreement keeps the observation periods of
  the latest authorized one, as step 2 of \<open>ConfirmPayment\<close> asks of it, and names the
  local signer as proposing and the remote signer as confirming.
\<close>

definition ProposePayment1 :: "Ext \<Rightarrow> Channel \<Rightarrow> int64 \<Rightarrow> Channel \<times> (error + CloseAgreement)" where
  "ProposePayment1 ext c amount =
     (case proposeGate c of
        Some err \<Rightarrow> (c, Inl err)
      | None \<Rightarrow>
     (if amount \<le>s 0
      then (c, Inl ''payment amount must be greater than 0'')
      else if underfundedProposal c amount
      then (c, Inl (''amount over commits: '' @ ErrUnderfunded))
      else
        (let d = (Details (latestAuthorizedCloseAgreement c))
                   \<lparr> IterationNumber :=
                       IterationNumber (Details (latestAuthorizedCloseAgreement c)) + 1,
                     Balance_d := proposedBalance c amount,
                     ProposingSigner := Some (localSigner c),
                     ConfirmingSigner := Some (remoteSigner c) \<rparr>
         in case closeTxs ext c (oaDetails (openAgreement c)) d of
              Inl err \<Rightarrow> (c, Inl (''making declaration and close transactions: '' @ err))
            | Inr (txDeclHash, txDecl, txCloseHash, txClose) \<Rightarrow>
                (case signCloseAgreementTxs ext txDecl txClose (networkPassphrase c) (localSigner c) of
                   Inl err \<Rightarrow> (c, Inl (''signing payment with local: '' @ err))
                 | Inr sigs \<Rightarrow>
                     (let ca = \<lparr> Details = d,
                                 TransactionHashes =
                                   \<lparr> hashDeclaration = txDeclHash, hashClose = txCloseHash \<rparr>,
                                 ProposerSignatures = sigs,
                                 ConfirmerSignatures = zeroCloseAgreementSignatures \<rparr>
                      in (c\<lparr> latestUnauthorizedCloseAgreement := ca \<rparr>, Inr ca))))))"

text \<open>
  Modelled from the spec: the \<open>ConfirmPayment\<close> that takes a \<open>CloseAgreement\<close>, which
  the tests of \<open>update.go\<close> and the agent call on the channel of the first part of
  \<open>state.go\<close>, is not in the sources; \<open>update.go\<close> holds an earlier revision of it, on
  another channel and another payment. It is modelled from the nine steps and the
  tie-break rule of section 4.3 of the spec, under the name \<open>ConfirmPayment1\<close>, in six
  definitions.

  \<open>confirmGate\<close> is step 1, the gates of \<open>ProposePayment\<close> with no coordinated close
  proposed; an unauthorized payment may be outstanding, which is what step 3 is about.
\<close>

definition confirmGate :: "Channel \<Rightarrow> error option" where
  "confirmGate c =
     (if isEmpty (latestAuthorizedCloseAgreement c) \<or> \<not> openExecutedAndValidated c
      then Some ''cannot confirm a payment before channel is opened''
      else if coordinatedCloseProposed c
      then Some ''cannot confirm payment after proposing a coordinated close''
      else if coordinatedCloseAuthorized c
      then Some ''cannot confirm payment after an accepted coordinated close''
      else None)"

text \<open>
  Modelled from the spec: the condition on the signers in step 2 of \<open>ConfirmPayment\<close>,
  which is not in the sources: the proposing and the confirming signer are the known
  pair of signers, the local and the remote one.
\<close>

definition signersKnown :: "Channel \<Rightarrow> CloseAgreementDetails \<Rightarrow> bool" where
  "signersKnown c d =
     ((ProposingSigner d = Some (localSigner c) \<and> ConfirmingSigner d = Some (remoteSigner c))
      \<or> (ProposingSigner d = Some (remoteSigner c) \<and> ConfirmingSigner d = Some (localSigner c)))"

text \<open>
  Modelled from the spec: steps 2 and 3 of \<open>ConfirmPayment\<close>, which is not in the
  sources. Step 2: the iteration number is the next expected one
  (\<open>NextIterationNumber\<close> of \<open>state.go\<close>), the observation periods are the channel's,
  which the tests hold in the latest authorized agreement, and the signers are the known
  pair; the details of an agreement name no asset. Step 3: if an unauthorized agreement
  exists, the envelope's details equal its details. The signers are looked at last, so
  that an envelope that differs from the agreement in progress is refused as such, as
  \<open>TestLastConfirmedPayment\<close> expects of one that names no signers.
\<close>

definition validatePayment :: "Ext \<Rightarrow> Channel \<Rightarrow> CloseAgreement \<Rightarrow> error option" where
  "validatePayment ext c ca =
     (if IterationNumber (Details ca) \<noteq> NextIterationNumber1 c
      then Some (''invalid payment iteration number, got: ''
                 @ FormatInt ext (IterationNumber (Details ca))
                 @ '' want: '' @ FormatInt ext (NextIterationNumber1 c))
      else if ObservationPeriodTime (Details ca)
                \<noteq> ObservationPeriodTime (Details (latestAuthorizedCloseAgreement c))
              \<or> ObservationPeriodLedgerGap (Details ca)
                \<noteq> ObservationPeriodLedgerGap (Details (latestAuthorizedCloseAgreement c))
      then Some ''invalid payment observation period: different than channel state''
      else if \<not> isEmpty (latestUnauthorizedCloseAgreement c)
              \<and> Details ca \<noteq> Details (latestUnauthorizedCloseAgreement c)
      then Some ''close agreement does not match the close agreement already in progress''
      else if \<not> signersKnown c (Details ca)
      then Some ''close agreement signers are not the signers of the channel''
      else None)"

text \<open>
  Modelled from the spec: the payment-direction rule, step 4 of \<open>ConfirmPayment\<close>, which
  is not in the sources. An envelope is a payment to the proposer when the balance
  change favours the proposing side. The balance is what the initiator owes the
  responder (\<open>Balance\<close> of \<open>state.go\<close>): a smaller balance favours the initiator, a
  larger one the responder.
\<close>

definition paymentToProposer :: "Channel \<Rightarrow> CloseAgreementDetails \<Rightarrow> bool" where
  "paymentToProposer c d =
     ((ProposingSigner d = Some (initiatorSigner c) \<and> Balance_d d <s Balance_c1 c)
      \<or> (ProposingSigner d = Some (responderSigner c) \<and> Balance_c1 c <s Balance_d d))"

text \<open>
  Modelled from the spec: the underfunded rule, step 5 of \<open>ConfirmPayment\<close>, which is not
  in the sources: either escrow account's observed balance is insufficient to cover its
  obligation under the new balance.
\<close>

definition overCommits :: "Channel \<Rightarrow> int64 \<Rightarrow> bool" where
  "overCommits c balance =
     (Balance (localEscrowAccount c) <s amountToRemote c balance
      \<or> Balance (remoteEscrowAccount c) <s amountToLocal c balance)"

text \<open>
  Modelled from the spec: \<open>ConfirmPayment\<close> itself, which is not in the sources. After
  the gate, the tie-break rule: an envelope identical to the authorized agreement is a
  no-op that returns the same authorized result. Then steps 2 to 5 above; step 6
  rebuilds the two transactions and refuses an envelope whose transaction hashes are not
  theirs; step 7 verifies the proposer's signatures under the proposing signer; step 8
  signs with the local key if the local signer is the confirming one and its signatures
  are missing; step 9 promotes the agreement if both sides' signatures are complete and
  stores it as the unauthorized one otherwise. The texts of the errors of steps 1 to 5
  are the ones the tests expect. The tests confirm envelopes that carry no transaction
  hashes; step 6 as the spec words it refuses them, and the model follows the spec.
\<close>

definition ConfirmPayment1 :: "Ext \<Rightarrow> Channel \<Rightarrow> CloseAgreement \<Rightarrow> Channel \<times> (error + CloseAgreement)" where
  "ConfirmPayment1 ext c ca =
     (case confirmGate c of
        Some err \<Rightarrow> (c, Inl (''validating payment: '' @ err))
      | None \<Rightarrow>
     (if ca = latestAuthorizedCloseAgreement c
      then (c, Inr ca)
      else
     (case validatePayment ext c ca of
        Some err \<Rightarrow> (c, Inl (''validating payment: '' @ err))
      | None \<Rightarrow>
     (if paymentToProposer c (Details ca)
      then (c, Inl ''close agreement is a payment to the proposer'')
      else if overCommits c (Balance_d (Details ca))
      then (c, Inl (''close agreement over commits: '' @ ErrUnderfunded))
      else
     (case closeTxs ext c (oaDetails (openAgreement c)) (Details ca) of
        Inl err \<Rightarrow> (c, Inl (''making payment transactions: '' @ err))
      | Inr (txDeclHash, txDecl, txCloseHash, txClose) \<Rightarrow>
     (if TransactionHashes ca \<noteq> \<lparr> hashDeclaration = txDeclHash, hashClose = txCloseHash \<rparr>
      then (c, Inl ''close agreement transaction hashes do not match the rebuilt transactions'')
      else
     (case (ProposingSigner (Details ca), ConfirmingSigner (Details ca)) of
        (Some proposer, Some confirmer) \<Rightarrow>
          (case VerifySigs ext (ProposerSignatures ca) txDecl txClose (networkPassphrase c) proposer of
             Some err \<Rightarrow> (c, Inl (''not signed by proposer: '' @ err))
           | None \<Rightarrow>
          (case VerifySigs ext (ConfirmerSignatures ca) txDecl txClose (networkPassphrase c) confirmer of
             None \<Rightarrow> promoteClose c ca
           | Some err \<Rightarrow>
               (if confirmer \<noteq> localSigner c
                then (c\<lparr> latestUnauthorizedCloseAgreement := ca \<rparr>, Inr ca)
                else
                  (case signCloseAgreementTxs ext txDecl txClose (networkPassphrase c) (localSigner c) of
                     Inl err' \<Rightarrow> (c, Inl (''local signing: '' @ err'))
                   | Inr sigs \<Rightarrow> promoteClose c (ca\<lparr> ConfirmerSignatures := sigs \<rparr>)))))
      | _ \<Rightarrow> (c, Inl ''close agreement signers are not the signers of the channel''))))))))"

section \<open>Payments (update.go, with the second Channel struct of state.go)\<close>

text \<open>
  \<open>PaymentTxs\<close> and \<open>ConfirmPayment\<close> of \<open>update.go\<close> belong to the revision of the
  second \<open>Channel\<close> struct of \<open>state.go\<close>. The types of that revision
  carry the suffix 2 where the name is taken. An asset is a string, the nil asset of
  \<open>Amount{}\<close> the empty one.
\<close>

record Amount =
  Asset :: string
  Amount :: int64

record Payment =
  pIterationNumber :: int64
  pAmount :: Amount
  pCloseSignatures :: "DecoratedSignature list"
  pDeclarationSignatures :: "DecoratedSignature list"
  pFromInitiator :: bool

record CloseAgreement2 =
  ca2IterationNumber :: int64
  ca2Balance :: Amount
  ca2CloseSignatures :: "DecoratedSignature list"
  ca2DeclarationSignatures :: "DecoratedSignature list"

text \<open>
  The second \<open>Channel\<close> struct of \<open>state.go\<close>, whose escrow accounts have no balance.
  \<open>NextIterationNumber\<close> of \<open>state.go\<close> reads the field \<open>latestUnconfirmedPayment\<close> under
  the name the struct declares; \<open>ConfirmPayment\<close> of \<open>update.go\<close> reads and writes the
  same field under the name \<open>latestUnconfirmedCloseAgreement\<close> and stores a
  \<open>CloseAgreement\<close> in it, which is the type the field has here. The field
  \<open>coordinatedClose\<close>, which no method of that revision at hand touches, is left out.
\<close>

record Channel2 = "EscrowAccount2 ChannelCommon" +
  observationPeriodTime :: int64
  observationPeriodLedgerGap :: int64
  latestCloseAgreement :: CloseAgreement2
  latestUnconfirmedPayment :: CloseAgreement2

definition zeroAmount :: Amount where
  "zeroAmount = \<lparr> Asset = [], Amount = 0 \<rparr>"

definition zeroCloseAgreement2 :: CloseAgreement2 where
  "zeroCloseAgreement2 =
     \<lparr> ca2IterationNumber = 0, ca2Balance = zeroAmount,
       ca2CloseSignatures = [], ca2DeclarationSignatures = [] \<rparr>"

definition zeroPayment :: Payment where
  "zeroPayment =
     \<lparr> pIterationNumber = 0, pAmount = zeroAmount, pCloseSignatures = [],
       pDeclarationSignatures = [], pFromInitiator = False \<rparr>"

definition isEquivalent :: "CloseAgreement2 \<Rightarrow> CloseAgreement2 \<Rightarrow> bool" where
  "isEquivalent ca ca2 =
     (ca2IterationNumber ca = ca2IterationNumber ca2 \<and> ca2Balance ca = ca2Balance ca2)"

text \<open>\<open>isEmpty\<close> of \<open>update.go\<close>, whose body names the balance \<open>ca.Amount\<close> and the
  signatures \<open>p.CloseSignatures\<close> and \<open>p.DeclarationSignatures\<close>: the receiver's.\<close>

definition isEmpty2 :: "CloseAgreement2 \<Rightarrow> bool" where
  "isEmpty2 ca =
     (ca2IterationNumber ca = 0 \<and> ca2Balance ca = zeroAmount
      \<and> length (ca2CloseSignatures ca) = 0 \<and> length (ca2DeclarationSignatures ca) = 0)"

definition NextIterationNumber :: "Channel2 \<Rightarrow> int64" where
  "NextIterationNumber c =
     (if \<not> isEmpty2 (latestUnconfirmedPayment c)
      then ca2IterationNumber (latestUnconfirmedPayment c)
      else ca2IterationNumber (latestCloseAgreement c) + 1)"

definition Balance_c :: "Channel2 \<Rightarrow> Amount" where
  "Balance_c c = ca2Balance (latestCloseAgreement c)"

definition newBalance :: "Channel2 \<Rightarrow> Payment \<Rightarrow> Amount" where
  "newBalance c p =
     (let amountFromInitiator = (if pFromInitiator p then Amount (pAmount p) else 0);
          amountFromResponder = (if pFromInitiator p then 0 else Amount (pAmount p))
      in \<lparr> Asset = Asset (pAmount p),
           Amount = Amount (Balance_c c) + amountFromInitiator - amountFromResponder \<rparr>)"

definition maxInt64 :: "int64 \<Rightarrow> int64 \<Rightarrow> int64" where
  "maxInt64 x y = (if y <s x then x else y)"

text \<open>
  \<open>verifySigned\<close> of the second part of \<open>state.go\<close>: some signature of the list carries
  the signer's hint and verifies over the transaction's hash.
\<close>

definition verifySigned2 ::
  "Ext \<Rightarrow> Channel2 \<Rightarrow> Transaction \<Rightarrow> DecoratedSignature list \<Rightarrow> string \<Rightarrow> error + bool" where
  "verifySigned2 ext c tx sigs signer =
     (case TxHash ext (networkPassphrase c) tx of
        Inl err \<Rightarrow> Inl err
      | Inr hash \<Rightarrow>
          Inr (list_ex (\<lambda>sig. Hint sig = KpHint ext signer
                              \<and> KpVerify ext signer hash (Signature sig) = None) sigs))"

text \<open>
  Modelled from the spec: \<open>txnbuild.Transaction.Sign\<close> is library code. A transaction
  supports signing with a keypair, which yields a detached signature over its hash under
  the network passphrase, and the attachment of a detached signature with the signer's
  hint; \<open>Sign\<close> returns the transaction with that signature attached.
\<close>

definition TxSign :: "Ext \<Rightarrow> string \<Rightarrow> string \<Rightarrow> Transaction \<Rightarrow> error + Transaction" where
  "TxSign ext passphrase kp tx =
     (case TxHash ext passphrase tx of
        Inl err \<Rightarrow> Inl err
      | Inr hash \<Rightarrow>
          (case KpSign ext kp hash of
             Inl err \<Rightarrow> Inl err
           | Inr sig \<Rightarrow>
               Inr (AddSignatureDecorated tx \<lparr> Hint = KpHint ext kp, Signature = sig \<rparr>)))"

definition PaymentTxs :: "Ext \<Rightarrow> Channel2 \<Rightarrow> Payment \<Rightarrow> error + (Transaction \<times> Transaction)" where
  "PaymentTxs ext c p =
     (let newBalance = newBalance c p
      in case Close ext \<lparr> cpObservationPeriodTime = observationPeriodTime c,
                           cpObservationPeriodLedgerGap = observationPeriodLedgerGap c,
                           cpInitiatorSigner = initiatorSigner c,
                           cpResponderSigner = responderSigner c,
                           cpInitiatorEscrow = Address (initiatorEscrowAccount c),
                           cpResponderEscrow = Address (responderEscrowAccount c),
                           cpStartSequence = startingSequence c,
                           cpIterationNumber = NextIterationNumber c,
                           cpAmountToInitiator = maxInt64 0 (Amount newBalance * (- 1)),
                           cpAmountToResponder = maxInt64 0 (Amount newBalance),
                           cpAsset = Asset (pAmount p) \<rparr> of
           Inl err \<Rightarrow> Inl err
         | Inr close \<Rightarrow>
             (case Declaration ext \<lparr> dpInitiatorEscrow = Address (initiatorEscrowAccount c),
                                     dpStartSequence = startingSequence c,
                                     dpIterationNumber = NextIterationNumber c,
                                     dpIterationNumberExecuted = 0,
                                     dpConfirmingSigner = None,
                                     dpCloseTxHash = 0 \<rparr> of
                Inl err \<Rightarrow> Inl err
              | Inr decl \<Rightarrow> Inr (close, decl)))"

text \<open>
  \<open>ConfirmPayment\<close> of \<open>update.go\<close>. The deferred function runs at every return: with
  an error it changes nothing; without one it builds the close agreement of the payment
  and stores it as the latest one, clearing the unconfirmed one, if the payment is fully
  signed, and as the unconfirmed one otherwise. The source names the agreement's balance
  \<open>newBalance\<close> before declaring it and compares the unconfirmed agreement with a \<open>ca\<close>
  that is not in scope: both are the agreement of the payment, \<open>paymentAgreement\<close>.
\<close>

definition paymentAgreement :: "Channel2 \<Rightarrow> Payment \<Rightarrow> CloseAgreement2" where
  "paymentAgreement c p =
     \<lparr> ca2IterationNumber = pIterationNumber p, ca2Balance = newBalance c p,
       ca2CloseSignatures = pCloseSignatures p,
       ca2DeclarationSignatures = pDeclarationSignatures p \<rparr>"

type_synonym ConfirmResult = "Channel2 \<times> Payment \<times> bool \<times> error option"

definition confirmReturn :: "Channel2 \<Rightarrow> Payment \<Rightarrow> bool \<Rightarrow> ConfirmResult" where
  "confirmReturn c p fullySigned =
     (if fullySigned
      then (c\<lparr> latestUnconfirmedPayment := zeroCloseAgreement2,
               latestCloseAgreement := paymentAgreement c p \<rparr>, p, fullySigned, None)
      else (c\<lparr> latestUnconfirmedPayment := paymentAgreement c p \<rparr>, p, fullySigned, None))"

definition signIfMissing ::
  "Ext \<Rightarrow> Channel2 \<Rightarrow> bool \<Rightarrow> Transaction \<Rightarrow> DecoratedSignature list
     \<Rightarrow> error + DecoratedSignature list" where
  "signIfMissing ext c isSigned tx sigs =
     (if \<not> isSigned
      then (case TxSign ext (networkPassphrase c) (localSigner c) tx of
              Inl err \<Rightarrow> Inl err
            | Inr txSigned \<Rightarrow> Inr (sigs @ txSignatures txSigned))
      else Inr sigs)"

definition ConfirmPayment :: "Ext \<Rightarrow> Channel2 \<Rightarrow> Payment \<Rightarrow> ConfirmResult" where
  "ConfirmPayment ext c p =
     (if pIterationNumber p \<noteq> NextIterationNumber c
      then (c, p, False, Some (''invalid payment iteration number, got: ''
                                @ FormatInt ext (pIterationNumber p)
                                @ '' want: '' @ FormatInt ext (NextIterationNumber c)))
      else if \<not> isEmpty2 (latestUnconfirmedPayment c)
              \<and> \<not> isEquivalent (latestUnconfirmedPayment c) (paymentAgreement c p)
      then (c, p, False, Some ''a different unconfirmed payment exists'')
      else if Asset (pAmount p) \<noteq> Asset (ca2Balance (latestCloseAgreement c))
      then (c, zeroPayment, False,
            Some (''payment asset type is invalid, got: '' @ Asset (pAmount p)
                  @ '' want: '' @ Asset (ca2Balance (latestCloseAgreement c))))
      else
     (case PaymentTxs ext c p of
        Inl err \<Rightarrow> (c, p, False, Some err)
      | Inr (txClose, txDecl) \<Rightarrow>
     (case verifySigned2 ext c txClose (pCloseSignatures p) (remoteSigner c) of
        Inl err \<Rightarrow> (c, p, False, Some (''verifying close signed by remote: '' @ err))
      | Inr remoteSignedClose \<Rightarrow>
     (if \<not> remoteSignedClose
      then (c, p, False, Some ''verifying close signed by remote: not signed by remote'')
      else
     (case verifySigned2 ext c txClose (pCloseSignatures p) (localSigner c) of
        Inl err \<Rightarrow> (c, p, False, Some (''verifying close signed by local: '' @ err))
      | Inr localSignedClose \<Rightarrow>
     (case signIfMissing ext c localSignedClose txClose (pCloseSignatures p) of
        Inl err \<Rightarrow> (c, p, False, Some (''signing close with local: '' @ err))
      | Inr closeSignatures \<Rightarrow>
     (let p1 = p\<lparr> pCloseSignatures := closeSignatures \<rparr> in
     (case verifySigned2 ext c txDecl (pDeclarationSignatures p1) (localSigner c) of
        Inl err \<Rightarrow> (c, p1, False, Some (''verifying declaration signed by local: '' @ err))
      | Inr localSignedDecl \<Rightarrow>
     (case signIfMissing ext c localSignedDecl txDecl (pDeclarationSignatures p1) of
        Inl err \<Rightarrow> (c, p1, False, Some err)
      | Inr declSignatures \<Rightarrow>
     (let p2 = p1\<lparr> pDeclarationSignatures := declSignatures \<rparr> in
     (case verifySigned2 ext c txDecl (pDeclarationSignatures p2) (remoteSigner c) of
        Inl err \<Rightarrow> (c, p2, False, Some (''verifying declaration signed by remote: '' @ err))
      | Inr remoteSignedDecl \<Rightarrow> confirmReturn c p2 remoteSignedDecl)))))))))))"

section \<open>Ingesting the formation transaction (update.go, ingestFormationTx)\<close>





















text \<open>
  The remote participant's signatures on an agreement verify: the channel rebuilds the
  two transactions, the agreement holds signatures for the remote signer, and both
  verify over the rebuilt transactions.
\<close>

definition remoteSignaturesVerify :: "Ext \<Rightarrow> Channel \<Rightarrow> CloseAgreement \<Rightarrow> bool" where
  "remoteSignaturesVerify ext c ca =
     (case closeTxs ext c (oaDetails (openAgreement c)) (Details ca) of
        Inl err \<Rightarrow> False
      | Inr (txDeclHash, txDecl, txCloseHash, txClose) \<Rightarrow>
          (case SignaturesFor ca (remoteSigner c) of
             None \<Rightarrow> False
           | Some remoteSigs \<Rightarrow>
               VerifySigs ext remoteSigs txDecl txClose (networkPassphrase c) (remoteSigner c) = None))"

text \<open>The hashes of the transactions rebuilt from an agreement's details, and the
  signatures on the transactions \<open>CloseTxs\<close> returns.\<close>

definition rebuiltHashes ::
  "Ext \<Rightarrow> Channel \<Rightarrow> CloseAgreementDetails \<Rightarrow> error + CloseAgreementTransactionHashes" where
  "rebuiltHashes ext c d =
     (case closeTxs ext c (oaDetails (openAgreement c)) d of
        Inl err \<Rightarrow> Inl err
      | Inr (txDeclHash, txDecl, txCloseHash, txClose) \<Rightarrow>
          Inr \<lparr> hashDeclaration = txDeclHash, hashClose = txCloseHash \<rparr>)"

definition closeTxsSignatures ::
  "Ext \<Rightarrow> Channel \<Rightarrow> error + (DecoratedSignature list \<times> DecoratedSignature list)" where
  "closeTxsSignatures ext c =
     (case CloseTxs ext c of
        Inl err \<Rightarrow> Inl err
      | Inr (declTx, closeTx) \<Rightarrow> Inr (txSignatures declTx, txSignatures closeTx))"

section \<open>A concrete instance of the libraries\<close>

text \<open>
  An instance to run the definitions on: every transaction is valid, the hash of a
  transaction mixes its sequence number, its two minimum sequence conditions, its
  operations, its extra signers and the length of the passphrase, a signature of a hash
  is the signer's address followed by one byte of the hash, and it verifies under that
  signer exactly.
\<close>

definition addressBytes :: "string \<Rightarrow> bytes" where
  "addressBytes a = map (\<lambda>ch. of_nat (of_char ch)) a"

definition demoSign :: "string \<Rightarrow> TransactionHash \<Rightarrow> bytes" where
  "demoSign signer h = addressBytes signer @ [ucast h]"

definition demoDeclaration :: "DeclarationParams \<Rightarrow> Transaction" where
  "demoDeclaration p =
     \<lparr> txSourceAccount = dpInitiatorEscrow p,
       txSequence = startSequenceOfIteration (dpStartSequence p) (dpIterationNumber p),
       txBaseFee = 100,
       txTimeout = 300,
       txMinSequenceAge = 0,
       txMinSequenceLedgerGap = 0,
       txExtraSigners = [dpCloseTxHash p],
       txOperations = [BumpSequence 0],
       txSignatures = [] \<rparr>"

fun demoDigest :: "Operation \<Rightarrow> TransactionHash" where
  "demoDigest (Payment source destination asset amount) =
     3 + ucast amount + sum_list (map ucast (addressBytes destination))"
| "demoDigest (BumpSequence n) = 2"
| "demoDigest (SetOptions a m l med h s w) = 1"

definition demoHash :: "string \<Rightarrow> Transaction \<Rightarrow> TransactionHash" where
  "demoHash passphrase tx =
     ucast (txSequence tx) + 3 * ucast (txMinSequenceAge tx)
     + 5 * ucast (txMinSequenceLedgerGap tx) + 7 * sum_list (map demoDigest (txOperations tx))
     + 11 * of_nat (length passphrase) + 13 * sum_list (txExtraSigners tx)"

definition demoEscrowEntry :: "string \<Rightarrow> int64 \<Rightarrow> AccountEntry" where
  "demoEscrowEntry a n =
     \<lparr> aeAccountId = a, aeBalance = 100, aeSeqNum = n, aeThresholds = [0, 2, 2, 2],
       aeSigners = [\<lparr> signerAddress = Inr ''SL'', Weight = 1 \<rparr>,
                    \<lparr> signerAddress = Inr ''SR'', Weight = 1 \<rparr>] \<rparr>"

definition demoFormationMeta :: TransactionMeta where
  "demoFormationMeta =
     \<lparr> V2Operations = Some [[Updated (AccountData (demoEscrowEntry ''EL'' 102)),
                              Updated (AccountData (demoEscrowEntry ''ER'' 1))]] \<rparr>"

text \<open>
  Further result metas: one of a channel in a credit asset, with a trustline of each
  escrow account; one whose second operation updates the initiator escrow account
  again, to a master key of weight 1 and three signers; and one whose escrow accounts
  have a master key of weight 2, a low threshold of 0 and the medium and the high
  threshold at 2.
\<close>

definition demoTrustline :: "string \<Rightarrow> TrustLineEntry" where
  "demoTrustline a =
     \<lparr> tlAccountId = a, tlAsset = ''USD:ISSUER'', tlBalance = 0, tlLimit = 1000, tlFlags = 1 \<rparr>"

definition demoCreditMeta :: TransactionMeta where
  "demoCreditMeta =
     \<lparr> V2Operations = Some [[Updated (AccountData (demoEscrowEntry ''EL'' 102)),
                              Updated (AccountData (demoEscrowEntry ''ER'' 1)),
                              Updated (TrustLineData (demoTrustline ''EL'')),
                              Updated (TrustLineData (demoTrustline ''ER''))]] \<rparr>"

definition demoOverwrittenMeta :: TransactionMeta where
  "demoOverwrittenMeta =
     \<lparr> V2Operations = Some [[Updated (AccountData (demoEscrowEntry ''EL'' 102)),
                              Updated (AccountData (demoEscrowEntry ''ER'' 1))],
                             [Updated (AccountData
                                ((demoEscrowEntry ''EL'' 102)
                                   \<lparr> aeThresholds := [1, 0, 0, 0],
                                     aeSigners := [\<lparr> signerAddress = Inr ''SL'', Weight = 1 \<rparr>,
                                                   \<lparr> signerAddress = Inr ''SR'', Weight = 1 \<rparr>,
                                                   \<lparr> signerAddress = Inr ''SX'', Weight = 1 \<rparr>] \<rparr>))]] \<rparr>"

definition demoClaimedThresholdsMeta :: TransactionMeta where
  "demoClaimedThresholdsMeta =
     \<lparr> V2Operations = Some [[Updated (AccountData
                                ((demoEscrowEntry ''EL'' 102)\<lparr> aeThresholds := [2, 0, 2, 2] \<rparr>)),
                              Updated (AccountData
                                ((demoEscrowEntry ''ER'' 1)\<lparr> aeThresholds := [2, 0, 2, 2] \<rparr>))]] \<rparr>"

definition demoExt :: Ext where
  "demoExt =
     \<lparr> NewTransactionError = (\<lambda>tx. None),
       Declaration = (\<lambda>p. Inr (demoDeclaration p)),
       TxHash = (\<lambda>passphrase tx. Inr (demoHash passphrase tx)),
       DurationSeconds = (\<lambda>d. d),
       MinBaseFee = 100,
       KpSign = (\<lambda>signer h. Inr (demoSign signer h)),
       KpVerify = (\<lambda>signer h s. if s = demoSign signer h then None else Some ''signature does not verify''),
       KpHint = (\<lambda>signer. take 4 (addressBytes signer)),
       PayloadHint = (\<lambda>hint payload. hint),
       AssetIsNative = (\<lambda>a. a = ''native''),
       FormatInt = (\<lambda>n. ''#''),
       UnmarshalMeta = (\<lambda>s. if s = ''formation'' then Inr demoFormationMeta
                              else if s = ''credit'' then Inr demoCreditMeta
                              else if s = ''overwritten'' then Inr demoOverwrittenMeta
                              else if s = ''claimed'' then Inr demoClaimedThresholdsMeta
                              else Inl ''illegal base64 data'') \<rparr>"

definition demoOpenDetails :: OpenAgreementDetails where
  "demoOpenDetails =
     \<lparr> oadObservationPeriodTime = 10, oadObservationPeriodLedgerGap = 10,
       oadAsset = ''native'', oadExpiresAt = 0, oadStartingSequence = 102,
       oadProposingSigner = Some ''SL'', oadConfirmingSigner = Some ''SR'' \<rparr>"

definition demoChannel :: Channel where
  "demoChannel =
     \<lparr> networkPassphrase = ''test'',
       startingSequence = 102,
       initiator = True,
       localEscrowAccount = \<lparr> Address = ''EL'', SequenceNumber = 101, Balance = 100 \<rparr>,
       remoteEscrowAccount = \<lparr> Address = ''ER'', SequenceNumber = 202, Balance = 100 \<rparr>,
       localSigner = ''SL'',
       remoteSigner = ''SR'',
       maxOpenExpiry = 0,
       openAgreement = \<lparr> oaDetails = demoOpenDetails \<rparr>,
       latestAuthorizedCloseAgreement = zeroCloseAgreement,
       latestUnauthorizedCloseAgreement = zeroCloseAgreement,
       openExecutedAndValidated = True,
       formationTxSuccess = True \<rparr>"

definition demoDetails :: "int64 \<Rightarrow> CloseAgreementDetails" where
  "demoDetails b =
     \<lparr> ObservationPeriodTime = 10, ObservationPeriodLedgerGap = 10,
       IterationNumber = 1, Balance_d = b,
       ProposingSigner = Some ''SL'', ConfirmingSigner = Some ''SR'' \<rparr>"

definition demoSig :: "nat \<Rightarrow> DecoratedSignature" where
  "demoSig n = \<lparr> Hint = [0, 0, 0, of_nat n], Signature = [of_nat n, 7] \<rparr>"

text \<open>
  A channel of the initiator (signer \<open>SL\<close>, escrow \<open>EL\<close>) that is open with an
  authorized agreement at iteration 1 and balance 100, the same channel as its peer
  (signer \<open>SR\<close>, escrow \<open>ER\<close>) holds it, and the agreements of a coordinated close of
  it. The numbers are the hashes of the rebuilt transactions under \<open>demoHash\<close>.
\<close>

definition demoAuthorized :: CloseAgreement where
  "demoAuthorized =
     \<lparr> Details = demoDetails 100,
       TransactionHashes = \<lparr> hashDeclaration = 26421, hashClose = 2020 \<rparr>,
       ProposerSignatures = \<lparr> sigDeclaration = demoSign ''SL'' 26421, sigClose = demoSign ''SL'' 2020 \<rparr>,
       ConfirmerSignatures = \<lparr> sigDeclaration = demoSign ''SR'' 26421, sigClose = demoSign ''SR'' 2020 \<rparr> \<rparr>"

definition demoOpenChannel :: Channel where
  "demoOpenChannel = demoChannel\<lparr> latestAuthorizedCloseAgreement := demoAuthorized \<rparr>"

definition demoRemoteChannel :: Channel where
  "demoRemoteChannel =
     demoOpenChannel\<lparr> initiator := False,
       localEscrowAccount := remoteEscrowAccount demoOpenChannel,
       remoteEscrowAccount := localEscrowAccount demoOpenChannel,
       localSigner := ''SR'', remoteSigner := ''SL'' \<rparr>"

definition demoCloseDetails :: CloseAgreementDetails where
  "demoCloseDetails =
     \<lparr> ObservationPeriodTime = 0, ObservationPeriodLedgerGap = 0,
       IterationNumber = 1, Balance_d = 100,
       ProposingSigner = Some ''SL'', ConfirmingSigner = Some ''SR'' \<rparr>"

definition demoProposedClose :: CloseAgreement where
  "demoProposedClose =
     \<lparr> Details = demoCloseDetails,
       TransactionHashes = \<lparr> hashDeclaration = 25381, hashClose = 1940 \<rparr>,
       ProposerSignatures = \<lparr> sigDeclaration = demoSign ''SL'' 25381, sigClose = demoSign ''SL'' 1940 \<rparr>,
       ConfirmerSignatures = zeroCloseAgreementSignatures \<rparr>"

definition demoConfirmedClose :: CloseAgreement where
  "demoConfirmedClose =
     demoProposedClose\<lparr> ConfirmerSignatures :=
       \<lparr> sigDeclaration = demoSign ''SR'' 25381, sigClose = demoSign ''SR'' 1940 \<rparr> \<rparr>"

definition demoProposingChannel :: Channel where
  "demoProposingChannel = demoOpenChannel\<lparr> latestUnauthorizedCloseAgreement := demoProposedClose \<rparr>"

definition demoClosedChannel :: Channel where
  "demoClosedChannel = demoOpenChannel\<lparr> latestAuthorizedCloseAgreement := demoConfirmedClose \<rparr>"

definition demoWrongHashes :: CloseAgreementTransactionHashes where
  "demoWrongHashes = \<lparr> hashDeclaration = 7, hashClose = 9 \<rparr>"

definition demoMismatchedProposal :: CloseAgreement where
  "demoMismatchedProposal = demoProposedClose\<lparr> TransactionHashes := demoWrongHashes \<rparr>"

definition demoMismatchedConfirmed :: CloseAgreement where
  "demoMismatchedConfirmed = demoConfirmedClose\<lparr> TransactionHashes := demoWrongHashes \<rparr>"



text \<open>
  The open channel of the initiator with a local escrow balance of 200, a payment of 10
  that it proposes there, and the channel with that payment in flight; a payment of 10
  from the responder to the initiator as the responder proposes it, and as the
  initiator confirms it; and an envelope in which the responder proposes the balance
  110, a payment of 10 from the initiator to the responder.
\<close>

definition demoFundedChannel :: Channel where
  "demoFundedChannel = UpdateLocalEscrowAccountBalance demoOpenChannel 200"

definition demoPaymentDetails :: "int64 \<Rightarrow> string \<Rightarrow> string \<Rightarrow> CloseAgreementDetails" where
  "demoPaymentDetails b proposer confirmer =
     \<lparr> ObservationPeriodTime = 10, ObservationPeriodLedgerGap = 10,
       IterationNumber = 2, Balance_d = b,
       ProposingSigner = Some proposer, ConfirmingSigner = Some confirmer \<rparr>"

definition demoProposedPayment :: CloseAgreement where
  "demoProposedPayment =
     \<lparr> Details = demoPaymentDetails 110 ''SL'' ''SR'',
       TransactionHashes = \<lparr> hashDeclaration = 27359, hashClose = 2092 \<rparr>,
       ProposerSignatures = \<lparr> sigDeclaration = demoSign ''SL'' 27359, sigClose = demoSign ''SL'' 2092 \<rparr>,
       ConfirmerSignatures = zeroCloseAgreementSignatures \<rparr>"

definition demoPayingChannel :: Channel where
  "demoPayingChannel = demoFundedChannel\<lparr> latestUnauthorizedCloseAgreement := demoProposedPayment \<rparr>"

definition demoReceivedPayment :: CloseAgreement where
  "demoReceivedPayment =
     \<lparr> Details = demoPaymentDetails 90 ''SR'' ''SL'',
       TransactionHashes = \<lparr> hashDeclaration = 25539, hashClose = 1952 \<rparr>,
       ProposerSignatures = \<lparr> sigDeclaration = demoSign ''SR'' 25539, sigClose = demoSign ''SR'' 1952 \<rparr>,
       ConfirmerSignatures = zeroCloseAgreementSignatures \<rparr>"

definition demoConfirmedPayment :: CloseAgreement where
  "demoConfirmedPayment =
     demoReceivedPayment\<lparr> ConfirmerSignatures :=
       \<lparr> sigDeclaration = demoSign ''SL'' 25539, sigClose = demoSign ''SL'' 1952 \<rparr> \<rparr>"

definition demoPaymentToProposer :: CloseAgreement where
  "demoPaymentToProposer =
     \<lparr> Details = demoPaymentDetails 110 ''SR'' ''SL'',
       TransactionHashes = \<lparr> hashDeclaration = 27359, hashClose = 2092 \<rparr>,
       ProposerSignatures = \<lparr> sigDeclaration = demoSign ''SR'' 27359, sigClose = demoSign ''SR'' 2092 \<rparr>,
       ConfirmerSignatures = zeroCloseAgreementSignatures \<rparr>"








section \<open>Properties of appendNewSignatures\<close>

lemma sigMap_None: "sigMap old s = None \<longleftrightarrow> s \<notin> Signature ` set old"
proof -
  have "\<And>m. foldl (\<lambda>m os. m(Signature os \<mapsto> True)) m old s = None
              \<longleftrightarrow> m s = None \<and> s \<notin> Signature ` set old"
    by (induction old) auto
  then show ?thesis by (simp add: sigMap_def)
qed

lemma appendNewSignatures_filter:
  "appendNewSignatures old new = old @ filter (\<lambda>ns. Signature ns \<notin> Signature ` set old) new"
proof -
  have "\<And>acc. foldl (\<lambda>acc ns. if sigMap old (Signature ns) = None then acc @ [ns] else acc) acc new
          = acc @ filter (\<lambda>ns. Signature ns \<notin> Signature ` set old) new"
    by (induction new) (simp_all add: sigMap_None)
  then show ?thesis by (simp add: appendNewSignatures_def)
qed

lemma filter_absent_self: "filter (\<lambda>ns. Signature ns \<notin> Signature ` set old) old = []"
  by (simp add: filter_empty_conv)

text \<open>
  C10, as the code has it. \<open>appendNewSignatures old new\<close> is \<open>old\<close> followed by exactly
  the elements of \<open>new\<close> whose signature bytes do not occur in \<open>old\<close>, in order;
  appending a list to itself returns it unchanged; and when the signature bytes of
  \<open>new\<close> are pairwise different, every pair of equal signature bytes in the result lies
  within \<open>old\<close>.
\<close>

theorem C10_appendNewSignatures:
  "appendNewSignatures old new = old @ filter (\<lambda>ns. Signature ns \<notin> Signature ` set old) new
   \<and> appendNewSignatures old old = old
   \<and> (distinct (map Signature new) \<longrightarrow> noNewDuplicate old (appendNewSignatures old new))"
proof -
  have a: "appendNewSignatures old new
             = old @ filter (\<lambda>ns. Signature ns \<notin> Signature ` set old) new"
    by (rule appendNewSignatures_filter)
  have b: "appendNewSignatures old old = old"
    by (simp add: appendNewSignatures_filter filter_absent_self)
  have c: "distinct (map Signature new) \<Longrightarrow> noNewDuplicate old (appendNewSignatures old new)"
    by (simp add: appendNewSignatures_filter noNewDuplicate_def distinct_map_filter
        list_all_iff)
  from a b c show ?thesis by blast
qed

theorem C10_appendNewSignatures_witness:
  "distinct (map Signature [demoSig 2, demoSig 3])
   \<and> appendNewSignatures [demoSig 1, demoSig 2] [demoSig 2, demoSig 3]
       = [demoSig 1, demoSig 2, demoSig 3]
   \<and> noNewDuplicate [demoSig 1, demoSig 2]
       (appendNewSignatures [demoSig 1, demoSig 2] [demoSig 2, demoSig 3])"
proof -
  have d: "distinct (map Signature [demoSig 2, demoSig 3])"
    by (simp add: demoSig_def)
  have e: "appendNewSignatures [demoSig 1, demoSig 2] [demoSig 2, demoSig 3]
             = [demoSig 1, demoSig 2, demoSig 3]"
    using C10_appendNewSignatures [of "[demoSig 1, demoSig 2]" "[demoSig 2, demoSig 3]"]
    by (simp add: demoSig_def)
  from d C10_appendNewSignatures [of "[demoSig 1, demoSig 2]" "[demoSig 2, demoSig 3]"]
  have "noNewDuplicate [demoSig 1, demoSig 2]
          (appendNewSignatures [demoSig 1, demoSig 2] [demoSig 2, demoSig 3])"
    by blast
  with d e show ?thesis by blast
qed

text \<open>
  C10 as stated fails: a signature that occurs twice in \<open>new\<close> and not in \<open>old\<close> is
  appended twice, because the map is built from \<open>old\<close> alone.
\<close>

theorem C10_duplicate_counterexample:
  "appendNewSignatures [demoSig 1] [demoSig 2, demoSig 2] = [demoSig 1, demoSig 2, demoSig 2]
   \<and> \<not> noNewDuplicate [demoSig 1] (appendNewSignatures [demoSig 1] [demoSig 2, demoSig 2])"
  by (simp add: appendNewSignatures_filter noNewDuplicate_def demoSig_def)

section \<open>The direction of the close payment\<close>

lemma amounts_pos: "0 <s b \<Longrightarrow> amountToInitiator b = 0 \<and> amountToResponder b = b \<and> b \<noteq> 0"
  by (auto simp: amountToInitiator_def amountToResponder_def word_sless_alt)

lemma amounts_neg: "b <s 0 \<Longrightarrow> amountToInitiator b = - b \<and> amountToResponder b = 0 \<and> - b \<noteq> 0"
  by (auto simp: amountToInitiator_def amountToResponder_def word_sless_alt)

lemma amounts_zero: "\<not> 0 <s b \<Longrightarrow> \<not> b <s 0 \<Longrightarrow> amountToInitiator b = 0 \<and> amountToResponder b = 0"
  by (auto simp: amountToInitiator_def amountToResponder_def)

lemma Close_payments:
  "Close ext p = Inr tx \<Longrightarrow> payments tx = filter isPayment (closeOperations p)"
  by (auto simp: Close_def payments_def Let_def split: option.splits)

lemma closeOperations_payments:
  "filter isPayment (closeOperations p) =
     (if cpAmountToInitiator p \<noteq> 0
        then [Payment (cpResponderEscrow p) (cpInitiatorEscrow p) ''native'' (cpAmountToInitiator p)]
        else [])
     @ (if cpAmountToResponder p \<noteq> 0
        then [Payment (cpInitiatorEscrow p) (cpResponderEscrow p) ''native'' (cpAmountToResponder p)]
        else [])"
  by (simp add: closeOperations_def)

text \<open>
  C3, as the code has it. A positive balance is owed by the initiator to the responder
  and a negative one by the responder to the initiator: whenever \<open>closeTxs\<close> builds the
  transactions of a close agreement, the close transaction holds exactly one payment,
  from the initiator escrow to the responder escrow of the balance, when the balance is
  positive; exactly one payment, from the responder escrow to the initiator escrow of the
  negated balance, when it is negative; and no payment when it is zero.
\<close>

theorem C3_close_payment_direction:
  assumes "closePayments ext c oad d = Inr ps"
  shows "ps =
     (if 0 <s Balance_d d
        then [Payment (Address (initiatorEscrowAccount c)) (Address (responderEscrowAccount c))
                ''native'' (Balance_d d)]
      else if Balance_d d <s 0
        then [Payment (Address (responderEscrowAccount c)) (Address (initiatorEscrowAccount c))
                ''native'' (- Balance_d d)]
      else [])"
proof -
  from assms obtain txClose where
    cl: "Close ext \<lparr> cpObservationPeriodTime = ObservationPeriodTime d,
                       cpObservationPeriodLedgerGap = ObservationPeriodLedgerGap d,
                       cpInitiatorSigner = initiatorSigner c,
                       cpResponderSigner = responderSigner c,
                       cpInitiatorEscrow = Address (initiatorEscrowAccount c),
                       cpResponderEscrow = Address (responderEscrowAccount c),
                       cpStartSequence = oadStartingSequence oad,
                       cpIterationNumber = IterationNumber d,
                       cpAmountToInitiator = amountToInitiator (Balance_d d),
                       cpAmountToResponder = amountToResponder (Balance_d d),
                       cpAsset = oadAsset oad \<rparr> = Inr txClose"
    and ps: "ps = payments txClose"
    by (auto simp: closePayments_def closeTxs_def split: sum.splits)
  show ?thesis
    unfolding ps Close_payments [OF cl] closeOperations_payments
    using amounts_pos [of "Balance_d d"] amounts_neg [of "Balance_d d"] amounts_zero [of "Balance_d d"]
    by auto
qed

lemma demo_closePayments:
  "closePayments demoExt demoChannel demoOpenDetails (demoDetails b) =
     Inr (filter isPayment (closeOperations
        \<lparr> cpObservationPeriodTime = 10, cpObservationPeriodLedgerGap = 10,
          cpInitiatorSigner = ''SL'', cpResponderSigner = ''SR'',
          cpInitiatorEscrow = ''EL'', cpResponderEscrow = ''ER'',
          cpStartSequence = 102, cpIterationNumber = 1,
          cpAmountToInitiator = amountToInitiator b,
          cpAmountToResponder = amountToResponder b, cpAsset = ''native'' \<rparr>))"
  by (simp add: closePayments_def closeTxs_def Close_def demoExt_def demoChannel_def
      demoOpenDetails_def demoDetails_def payments_def initiatorSigner_def responderSigner_def
      initiatorEscrowAccount_def responderEscrowAccount_def Let_def)

text \<open>
  C3 as stated fails: with the balance 100 the close transaction pays the responder
  escrow and holds no payment to the initiator escrow.
\<close>

theorem C3_positive_balance_counterexample:
  "closePayments demoExt demoChannel demoOpenDetails (demoDetails 100)
     = Inr [Payment ''EL'' ''ER'' ''native'' 100]
   \<and> Address (initiatorEscrowAccount demoChannel) = ''EL''
   \<and> Address (responderEscrowAccount demoChannel) = ''ER''
   \<and> amountToInitiator 100 = 0 \<and> amountToResponder 100 = 100"
proof -
  have amounts: "amountToInitiator 100 = 0 \<and> amountToResponder 100 = 100"
    by (simp add: amountToInitiator_def amountToResponder_def word_sless_alt)
  have run: "closePayments demoExt demoChannel demoOpenDetails (demoDetails 100)
     = Inr [Payment ''EL'' ''ER'' ''native'' 100]"
    unfolding demo_closePayments by (simp add: closeOperations_def amounts)
  have accounts: "Address (initiatorEscrowAccount demoChannel) = ''EL''
     \<and> Address (responderEscrowAccount demoChannel) = ''ER''"
    by (simp add: initiatorEscrowAccount_def responderEscrowAccount_def demoChannel_def)
  from amounts run accounts show ?thesis by blast
qed

theorem C3_close_payment_direction_witness:
  "closePayments demoExt demoChannel demoOpenDetails (demoDetails (- 60))
     = Inr [Payment ''ER'' ''EL'' ''native'' 60]
   \<and> [Payment ''ER'' ''EL'' ''native'' 60] =
     (if 0 <s Balance_d (demoDetails (- 60))
        then [Payment (Address (initiatorEscrowAccount demoChannel))
                (Address (responderEscrowAccount demoChannel)) ''native''
                (Balance_d (demoDetails (- 60)))]
      else if Balance_d (demoDetails (- 60)) <s 0
        then [Payment (Address (responderEscrowAccount demoChannel))
                (Address (initiatorEscrowAccount demoChannel)) ''native''
                (- Balance_d (demoDetails (- 60)))]
      else [])"
proof -
  have run: "closePayments demoExt demoChannel demoOpenDetails (demoDetails (- 60))
     = Inr [Payment ''ER'' ''EL'' ''native'' 60]"
    unfolding demo_closePayments
    by (simp add: closeOperations_def amountToInitiator_def amountToResponder_def word_sless_alt)
  from C3_close_payment_direction [OF run] run show ?thesis by blast
qed

section \<open>Coordinated close\<close>

lemma validateClose_None:
  "validateClose c ca = None \<Longrightarrow>
     IterationNumber (Details ca) = IterationNumber (Details (latestAuthorizedCloseAgreement c))
     \<and> Balance_d (Details ca) = Balance_d (Details (latestAuthorizedCloseAgreement c))
     \<and> ObservationPeriodTime (Details ca) = 0
     \<and> ObservationPeriodLedgerGap (Details ca) = 0
     \<and> (ConfirmingSigner (Details ca) = Some (localSigner c)
         \<or> ConfirmingSigner (Details ca) = Some (remoteSigner c))
     \<and> \<not> isEmpty (latestAuthorizedCloseAgreement c) \<and> openExecutedAndValidated c"
  by (simp add: validateClose_def split: if_splits option.splits)

lemma ConfirmClose_error: "ConfirmClose ext c ca = (c', Inl err) \<Longrightarrow> c' = c"
  by (auto simp: ConfirmClose_def promoteClose_def split: option.splits sum.splits prod.splits if_splits)

lemma ConfirmClose_success:
  assumes "ConfirmClose ext c ca = (c', Inr ca')"
  shows "validateClose c ca = None"
    and "remoteSignaturesVerify ext c ca"
    and "c' = c\<lparr> latestAuthorizedCloseAgreement := ca',
                  latestUnauthorizedCloseAgreement := zeroCloseAgreement \<rparr>"
    and "Details ca' = Details ca"
    and "TransactionHashes ca' = TransactionHashes ca"
    and "ProposerSignatures ca' = ProposerSignatures ca"
  using assms
  by (auto simp: ConfirmClose_def promoteClose_def remoteSignaturesVerify_def
      split: option.splits sum.splits prod.splits if_splits)

text \<open>
  C5. \<open>ConfirmClose\<close> returns an error unless the envelope's iteration number and
  balance equal those of the latest authorized close agreement, both observation periods
  are zero, the confirming signer is the local or the remote signer, and the remote
  participant's signatures verify. With an error the channel, and so its latest
  authorized and unauthorized close agreements, is unchanged. Without an error the
  latest authorized close agreement is the returned agreement, which has the envelope's
  details and so zero observation periods, and the unauthorized one is cleared.
\<close>

theorem C5_ConfirmClose:
  "(\<forall>c' err. ConfirmClose ext c ca = (c', Inl err) \<longrightarrow>
       c' = c
     \<and> latestAuthorizedCloseAgreement c' = latestAuthorizedCloseAgreement c
     \<and> latestUnauthorizedCloseAgreement c' = latestUnauthorizedCloseAgreement c)
   \<and> (\<forall>c' ca'. ConfirmClose ext c ca = (c', Inr ca') \<longrightarrow>
       IterationNumber (Details ca) = IterationNumber (Details (latestAuthorizedCloseAgreement c))
     \<and> Balance_d (Details ca) = Balance_d (Details (latestAuthorizedCloseAgreement c))
     \<and> ObservationPeriodTime (Details ca) = 0
     \<and> ObservationPeriodLedgerGap (Details ca) = 0
     \<and> (ConfirmingSigner (Details ca) = Some (localSigner c)
         \<or> ConfirmingSigner (Details ca) = Some (remoteSigner c))
     \<and> remoteSignaturesVerify ext c ca
     \<and> c' = c\<lparr> latestAuthorizedCloseAgreement := ca',
                 latestUnauthorizedCloseAgreement := zeroCloseAgreement \<rparr>
     \<and> Details ca' = Details ca
     \<and> ObservationPeriodTime (Details (latestAuthorizedCloseAgreement c')) = 0
     \<and> ObservationPeriodLedgerGap (Details (latestAuthorizedCloseAgreement c')) = 0)"
proof (intro conjI allI impI)
  fix c' err assume "ConfirmClose ext c ca = (c', Inl err)"
  then have "c' = c" by (rule ConfirmClose_error)
  then show "c' = c"
    and "latestAuthorizedCloseAgreement c' = latestAuthorizedCloseAgreement c"
    and "latestUnauthorizedCloseAgreement c' = latestUnauthorizedCloseAgreement c"
    by simp_all
next
  fix c' ca' assume ok: "ConfirmClose ext c ca = (c', Inr ca')"
  note v = validateClose_None [OF ConfirmClose_success(1) [OF ok]]
  note s = ConfirmClose_success [OF ok]
  show "IterationNumber (Details ca) = IterationNumber (Details (latestAuthorizedCloseAgreement c))"
    using v by simp
  show "Balance_d (Details ca) = Balance_d (Details (latestAuthorizedCloseAgreement c))"
    using v by simp
  show "ObservationPeriodTime (Details ca) = 0" using v by simp
  show "ObservationPeriodLedgerGap (Details ca) = 0" using v by simp
  show "ConfirmingSigner (Details ca) = Some (localSigner c)
         \<or> ConfirmingSigner (Details ca) = Some (remoteSigner c)" using v by simp
  show "remoteSignaturesVerify ext c ca" by (rule s(2))
  show "c' = c\<lparr> latestAuthorizedCloseAgreement := ca',
                 latestUnauthorizedCloseAgreement := zeroCloseAgreement \<rparr>" by (rule s(3))
  show "Details ca' = Details ca" by (rule s(4))
  show "ObservationPeriodTime (Details (latestAuthorizedCloseAgreement c')) = 0"
    using v s(3) s(4) by simp
  show "ObservationPeriodLedgerGap (Details (latestAuthorizedCloseAgreement c')) = 0"
    using v s(3) s(4) by simp
qed

text \<open>
  C6, as the code has it. \<open>ProposeClose\<close> succeeds only when the channel is open and
  executed and no unauthorized agreement is in flight (a payment, or a coordinated close
  proposed and not yet confirmed). On success it returns and stores as the unauthorized
  agreement a close agreement whose details are those of the latest authorized close
  agreement with both observation periods zero and the proposing and confirming signers
  set to the local and the remote signer.
\<close>

theorem C6_ProposeClose:
  assumes "ProposeClose ext c = (c', Inr ca)"
  shows "openExecutedAndValidated c
     \<and> \<not> isEmpty (latestAuthorizedCloseAgreement c)
     \<and> isEmpty (latestUnauthorizedCloseAgreement c)
     \<and> Details ca = (Details (latestAuthorizedCloseAgreement c))
                       \<lparr> ObservationPeriodTime := 0,
                         ObservationPeriodLedgerGap := 0,
                         ProposingSigner := Some (localSigner c),
                         ConfirmingSigner := Some (remoteSigner c) \<rparr>
     \<and> c' = c\<lparr> latestUnauthorizedCloseAgreement := ca \<rparr>
     \<and> latestUnauthorizedCloseAgreement c' = ca"
  using assms
  by (auto simp: ProposeClose_def Let_def split: if_splits sum.splits prod.splits)

lemma demo_ProposeClose:
  "ProposeClose demoExt demoOpenChannel = (demoProposingChannel, Inr demoProposedClose)"
  by code_simp

lemma demo_peer_ConfirmClose:
  "ConfirmClose demoExt demoRemoteChannel demoProposedClose
     = (demoRemoteChannel\<lparr> latestAuthorizedCloseAgreement := demoConfirmedClose \<rparr>,
        Inr demoConfirmedClose)"
  by code_simp

lemma demo_ConfirmClose:
  "ConfirmClose demoExt demoProposingChannel demoConfirmedClose
     = (demoClosedChannel, Inr demoConfirmedClose)"
  by code_simp

lemma demo_ConfirmClose_rejected:
  "ConfirmClose demoExt demoOpenChannel demoAuthorized
     = (demoOpenChannel,
        Inl ''validating close agreement: close agreement observation period time is not zero'')"
  by code_simp

theorem C5_ConfirmClose_witness:
  "ConfirmClose demoExt demoProposingChannel demoConfirmedClose
     = (demoClosedChannel, Inr demoConfirmedClose)
   \<and> remoteSignaturesVerify demoExt demoProposingChannel demoConfirmedClose
   \<and> demoClosedChannel = demoProposingChannel
        \<lparr> latestAuthorizedCloseAgreement := demoConfirmedClose,
          latestUnauthorizedCloseAgreement := zeroCloseAgreement \<rparr>
   \<and> ObservationPeriodTime (Details (latestAuthorizedCloseAgreement demoClosedChannel)) = 0
   \<and> ConfirmClose demoExt demoOpenChannel demoAuthorized
     = (demoOpenChannel,
        Inl ''validating close agreement: close agreement observation period time is not zero'')"
  using C5_ConfirmClose [of demoExt demoProposingChannel demoConfirmedClose]
    C5_ConfirmClose [of demoExt demoOpenChannel demoAuthorized]
    demo_ConfirmClose demo_ConfirmClose_rejected
  by blast

theorem C6_ProposeClose_witness:
  "ProposeClose demoExt demoOpenChannel = (demoProposingChannel, Inr demoProposedClose)
   \<and> openExecutedAndValidated demoOpenChannel
   \<and> isEmpty (latestUnauthorizedCloseAgreement demoOpenChannel)
   \<and> Details demoProposedClose = (Details (latestAuthorizedCloseAgreement demoOpenChannel))
                       \<lparr> ObservationPeriodTime := 0,
                         ObservationPeriodLedgerGap := 0,
                         ProposingSigner := Some (localSigner demoOpenChannel),
                         ConfirmingSigner := Some (remoteSigner demoOpenChannel) \<rparr>
   \<and> latestUnauthorizedCloseAgreement demoProposingChannel = demoProposedClose"
  using C6_ProposeClose [OF demo_ProposeClose] demo_ProposeClose by blast

text \<open>
  C6 as stated fails: after a coordinated close has been proposed by this channel,
  confirmed by the peer and confirmed here, \<open>ProposeClose\<close> succeeds again.
\<close>

theorem C6_propose_again_counterexample:
  "ProposeClose demoExt demoOpenChannel = (demoProposingChannel, Inr demoProposedClose)
   \<and> ConfirmClose demoExt demoRemoteChannel demoProposedClose
     = (demoRemoteChannel\<lparr> latestAuthorizedCloseAgreement := demoConfirmedClose \<rparr>,
        Inr demoConfirmedClose)
   \<and> ConfirmClose demoExt demoProposingChannel demoConfirmedClose
     = (demoClosedChannel, Inr demoConfirmedClose)
   \<and> ProposeClose demoExt demoClosedChannel
     = (demoClosedChannel\<lparr> latestUnauthorizedCloseAgreement := demoProposedClose \<rparr>,
        Inr demoProposedClose)"
proof -
  have "ProposeClose demoExt demoClosedChannel
     = (demoClosedChannel\<lparr> latestUnauthorizedCloseAgreement := demoProposedClose \<rparr>,
        Inr demoProposedClose)"
    by code_simp
  with demo_ProposeClose demo_peer_ConfirmClose demo_ConfirmClose show ?thesis by blast
qed

text \<open>
  C8 fails on the code: the hash comparisons in \<open>ConfirmClose\<close> and \<open>CloseTxs\<close> have
  empty bodies. The peer's channel rebuilds the hashes 25381 and 1940, the proposal declares
  7 and 9, and \<open>ConfirmClose\<close> accepts it, signs both transactions and stores the
  agreement with the declared hashes as authorized; the proposer's channel accepts the
  confirmed agreement in the same way, and \<open>CloseTxs\<close> on it returns the two
  transactions with the stored signatures attached.
\<close>

theorem C8_hash_mismatch_accepted:
  "rebuiltHashes demoExt demoRemoteChannel (Details demoMismatchedProposal)
     = Inr \<lparr> hashDeclaration = 25381, hashClose = 1940 \<rparr>
   \<and> TransactionHashes demoMismatchedProposal = \<lparr> hashDeclaration = 7, hashClose = 9 \<rparr>
   \<and> ConfirmClose demoExt demoRemoteChannel demoMismatchedProposal
     = (demoRemoteChannel\<lparr> latestAuthorizedCloseAgreement := demoMismatchedConfirmed \<rparr>,
        Inr demoMismatchedConfirmed)
   \<and> ConfirmerSignatures demoMismatchedConfirmed
     = \<lparr> sigDeclaration = demoSign ''SR'' 25381, sigClose = demoSign ''SR'' 1940 \<rparr>
   \<and> ConfirmClose demoExt demoProposingChannel demoMismatchedConfirmed
     = (demoOpenChannel\<lparr> latestAuthorizedCloseAgreement := demoMismatchedConfirmed \<rparr>,
        Inr demoMismatchedConfirmed)
   \<and> closeTxsSignatures demoExt
        (demoOpenChannel\<lparr> latestAuthorizedCloseAgreement := demoMismatchedConfirmed \<rparr>)
     = Inr ([\<lparr> Hint = [83, 76], Signature = demoSign ''SL'' 25381 \<rparr>,
             \<lparr> Hint = [83, 82], Signature = demoSign ''SR'' 25381 \<rparr>,
             \<lparr> Hint = [83, 82], Signature = demoSign ''SR'' 1940 \<rparr>],
            [\<lparr> Hint = [83, 76], Signature = demoSign ''SL'' 1940 \<rparr>,
             \<lparr> Hint = [83, 82], Signature = demoSign ''SR'' 1940 \<rparr>])"
  by code_simp

section \<open>Formation\<close>





















section \<open>Payments\<close>

subsection \<open>Proposing and confirming on the channel of close.go\<close>

text \<open>
  The two operations run: the initiator proposes a payment of 10 once its escrow balance
  covers it, the responder proposes one of 10 on its side of the channel, and the
  initiator confirms the responder's, signing it and storing it as authorized.
\<close>

lemma demo_ProposePayment1:
  "ProposePayment1 demoExt demoFundedChannel 10 = (demoPayingChannel, Inr demoProposedPayment)"
  by code_simp

lemma demo_ProposePayment1_remote:
  "ProposePayment1 demoExt demoRemoteChannel 10
     = (demoRemoteChannel\<lparr> latestUnauthorizedCloseAgreement := demoReceivedPayment \<rparr>,
        Inr demoReceivedPayment)"
  by code_simp

lemma demo_ConfirmPayment1:
  "ConfirmPayment1 demoExt demoOpenChannel demoReceivedPayment
     = (demoOpenChannel\<lparr> latestAuthorizedCloseAgreement := demoConfirmedPayment,
                         latestUnauthorizedCloseAgreement := zeroCloseAgreement \<rparr>,
        Inr demoConfirmedPayment)"
  by code_simp


lemma ProposePayment1_success:
  assumes "ProposePayment1 ext c amount = (c', Inr ca)"
  shows "proposeGate c = None" and "0 <s amount" and "\<not> underfundedProposal c amount"
    and "c' = c\<lparr> latestUnauthorizedCloseAgreement := ca \<rparr>"
  using assms
  by (auto simp: ProposePayment1_def Let_def word_sless_alt word_sle_eq split: option.splits if_splits sum.splits prod.splits)

lemma proposeGate_None:
  assumes "proposeGate c = None"
  shows "isEmpty (latestUnauthorizedCloseAgreement c)"
  using assms by (auto simp: proposeGate_def split: if_splits)




text \<open>
  C4, for the \<open>ProposePayment\<close> of the spec. On a channel that has a non-empty
  unauthorized close agreement in flight \<open>ProposePayment\<close> returns an error and the
  channel unchanged; and when it succeeds, the unauthorized agreement was empty and the
  channel differs only in holding the proposal as its unauthorized agreement, so that a
  proposal never replaces an agreement in flight.
\<close>

theorem C4_ProposePayment_serial:
  shows "(\<not> isEmpty (latestUnauthorizedCloseAgreement c) \<longrightarrow>
            (\<exists>err. ProposePayment1 ext c amount = (c, Inl err)))
       \<and> (\<forall>c' ca. ProposePayment1 ext c amount = (c', Inr ca) \<longrightarrow>
            isEmpty (latestUnauthorizedCloseAgreement c)
          \<and> c' = c\<lparr> latestUnauthorizedCloseAgreement := ca \<rparr>)"
proof (intro conjI impI allI)
  assume ne: "\<not> isEmpty (latestUnauthorizedCloseAgreement c)"
  then have "proposeGate c \<noteq> None" using proposeGate_None by blast
  then obtain err where "proposeGate c = Some err" by auto
  then have "ProposePayment1 ext c amount = (c, Inl err)" by (simp add: ProposePayment1_def)
  then show "\<exists>err. ProposePayment1 ext c amount = (c, Inl err)" by blast
next
  fix c' ca assume ok: "ProposePayment1 ext c amount = (c', Inr ca)"
  from ProposePayment1_success(1) [OF ok] show "isEmpty (latestUnauthorizedCloseAgreement c)"
    by (rule proposeGate_None)
  from ok show "c' = c\<lparr> latestUnauthorizedCloseAgreement := ca \<rparr>"
    by (rule ProposePayment1_success(4))
qed

text \<open>
  The sequence of \<open>TestChannel_enforceOnlyOneCloseAgreementAllowed\<close>: a payment of 10 is
  proposed, and with it in flight a payment of 20 is refused.
\<close>

theorem C4_ProposePayment_serial_witness:
  "ProposePayment1 demoExt demoFundedChannel 10 = (demoPayingChannel, Inr demoProposedPayment)
   \<and> isEmpty (latestUnauthorizedCloseAgreement demoFundedChannel)
   \<and> demoPayingChannel = demoFundedChannel\<lparr> latestUnauthorizedCloseAgreement := demoProposedPayment \<rparr>
   \<and> \<not> isEmpty (latestUnauthorizedCloseAgreement demoPayingChannel)
   \<and> ProposePayment1 demoExt demoPayingChannel 20
       = (demoPayingChannel, Inl ''cannot start a new payment while an unfinished one exists'')"
proof -
  have ne: "\<not> isEmpty (latestUnauthorizedCloseAgreement demoPayingChannel)" by code_simp
  have second: "ProposePayment1 demoExt demoPayingChannel 20
       = (demoPayingChannel, Inl ''cannot start a new payment while an unfinished one exists'')"
    by code_simp
  from C4_ProposePayment_serial [of demoFundedChannel demoExt 10] demo_ProposePayment1
  have "isEmpty (latestUnauthorizedCloseAgreement demoFundedChannel)
      \<and> demoPayingChannel = demoFundedChannel\<lparr> latestUnauthorizedCloseAgreement := demoProposedPayment \<rparr>"
    by blast
  moreover from C4_ProposePayment_serial [of demoPayingChannel demoExt 20] ne
  have "\<exists>err. ProposePayment1 demoExt demoPayingChannel 20 = (demoPayingChannel, Inl err)"
    by blast
  ultimately show ?thesis using demo_ProposePayment1 ne second by blast
qed

lemma ConfirmPayment1_error: "ConfirmPayment1 ext c ca = (c', Inl err) \<Longrightarrow> c' = c"
  by (auto simp: ConfirmPayment1_def promoteClose_def Let_def
      split: option.splits if_splits sum.splits prod.splits)

lemma paymentToProposer_latest:
  "\<not> paymentToProposer c (Details (latestAuthorizedCloseAgreement c))"
  by (simp add: paymentToProposer_def Balance_c1_def)

lemma ConfirmPayment1_success:
  assumes "ConfirmPayment1 ext c ca = (c', Inr ca')"
  shows "\<not> paymentToProposer c (Details ca)"
  using assms paymentToProposer_latest [of c]
  by (auto simp: ConfirmPayment1_def Let_def
      split: option.splits if_splits sum.splits prod.splits)

text \<open>
  C2, for the \<open>ConfirmPayment\<close> of the spec. When the envelope is a payment to the
  proposer, that is, when the balance change favours the proposing side,
  \<open>ConfirmPayment\<close> returns an error and the channel unchanged, whatever the channel
  and the envelope.
\<close>

theorem C2_ConfirmPayment_payment_to_proposer:
  assumes "paymentToProposer c (Details ca)"
  shows "\<exists>err. ConfirmPayment1 ext c ca = (c, Inl err)"
proof (cases "ConfirmPayment1 ext c ca")
  case (Pair c' r)
  show ?thesis
  proof (cases r)
    case (Inl err)
    with Pair ConfirmPayment1_error [of ext c ca c' err] show ?thesis by simp
  next
    case (Inr ca')
    with Pair ConfirmPayment1_success [of ext c ca c' ca'] assms show ?thesis by simp
  qed
qed

text \<open>
  The envelope of
  \<open>TestChannel_ConfirmPayment_localWhoIsInitiatorRejectsPaymentToRemoteWhoIsResponder\<close>:
  the initiator owes 100, and the responder proposes the balance 110.
\<close>

theorem C2_ConfirmPayment_payment_to_proposer_witness:
  "paymentToProposer demoOpenChannel (Details demoPaymentToProposer)
   \<and> ConfirmPayment1 demoExt demoOpenChannel demoPaymentToProposer
       = (demoOpenChannel, Inl ''close agreement is a payment to the proposer'')"
proof -
  have p: "paymentToProposer demoOpenChannel (Details demoPaymentToProposer)" by code_simp
  have r: "ConfirmPayment1 demoExt demoOpenChannel demoPaymentToProposer
       = (demoOpenChannel, Inl ''close agreement is a payment to the proposer'')" by code_simp
  from C2_ConfirmPayment_payment_to_proposer [OF p, of demoExt] p r show ?thesis by blast
qed

subsection \<open>Confirming in the revision of update.go\<close>

lemma ConfirmPayment_error:
  "ConfirmPayment ext c p = (c', p', fs, Some err) \<Longrightarrow> c' = c \<and> fs = False"
  by (auto simp: ConfirmPayment_def confirmReturn_def Let_def
      split: if_splits sum.splits prod.splits)








end
